theory Spec2Isabelle
  imports Main "HOL-Library.Sublist" "HOL-Library.AList"
begin

section \<open>Data model (src/types/index.ts)\<close>

text \<open>
  JavaScript objects used as dictionaries are association lists in insertion order, each
  key once; lookup is \<^const>\<open>map_of\<close>. (JavaScript enumerates keys that are array indices
  before the others; the order of such keys is not modelled, and no property below
  depends on the order of keys.) An optional field \<open>f?: T\<close> is a \<open>T option\<close>, with
  \<open>None\<close> for \<open>undefined\<close>. Field names carry a prefix for the structure they belong to
  (\<open>s_\<close> schema, \<open>p_\<close> parameter, \<open>e_\<close> endpoint, \<open>t_\<close> tool, ...), since several of the
  source's interfaces share field names. Numbers are only copied by the generator, never
  computed with, and are integers here.
\<close>

type_synonym json = string

text \<open>The validation facets that \<open>convertSchemaToZod\<close> reads and copies.\<close>

record facets =
  f_enum :: "json list option"
  f_format :: "string option"
  f_minimum :: "int option"
  f_maximum :: "int option"
  f_minLength :: "int option"
  f_maxLength :: "int option"
  f_pattern :: "string option"

definition no_facets :: facets where
  "no_facets = \<lparr> f_enum = None, f_format = None, f_minimum = None, f_maximum = None,
     f_minLength = None, f_maxLength = None, f_pattern = None \<rparr>"

text \<open>
  \<open>interface Schema\<close>. The keys the generator never reads (\<open>minItems\<close>, \<open>nullable\<close>,
  \<open>example\<close>, \<open>not\<close>, ...) are kept as one dictionary \<open>s_extras\<close> of opaque values: the
  generator only ever copies them with an object spread.
\<close>

datatype schema = Schema
  (s_type: "string option")
  (s_ref: "string option")
  (s_description: "string option")
  (s_facets: facets)
  (s_extras: "(string \<times> json) list")
  (s_items: "schema option")
  (s_properties: "(string \<times> schema) list option")
  (s_required: "string list option")
  (s_allOf: "schema list option")
  (s_oneOf: "schema list option")
  (s_anyOf: "schema list option")

text \<open>
  \<open>interface Parameter\<close>, with \<open>schema\<close> optional as the generator and the validator
  both allow for its absence, and with the inline \<open>type\<close> of a Swagger 2.0 parameter,
  which the validator reads.
\<close>

record Parameter =
  p_name :: string
  p_in :: string
  p_required :: "bool option"
  p_schema :: "schema option"
  p_type :: "string option"
  p_description :: "string option"

record RequestBody =
  rb_description :: "string option"
  rb_content :: "(string \<times> schema option) list option"
  rb_required :: "bool option"

record SecurityScheme =
  ss_type :: string
  ss_name :: "string option"
  ss_in :: "string option"
  ss_scheme :: "string option"
  ss_flows :: "json option"
  ss_openIdConnectUrl :: "string option"

text \<open>
  In a dictionary of security schemes, of path items or of operations a key can hold
  \<open>null\<close> where the interface declares an object (\<open>name: null\<close> in JSON, an empty value in
  YAML); that is \<open>None\<close> as the value of the key.
\<close>

text \<open>A \<open>SecurityRequirement\<close> is an object from scheme names to scope lists.\<close>

type_synonym SecurityRequirement = "(string \<times> string list) list"

record ApiEndpoint =
  e_path :: string
  e_method :: string
  e_operationId :: "string option"
  e_summary :: "string option"
  e_description :: "string option"
  e_tags :: "string list option"
  e_parameters :: "Parameter list"
  e_requestBody :: "RequestBody option"
  e_responses :: "json option"
  e_security :: "SecurityRequirement list option"

record Info =
  i_title :: "string option"
  i_version :: "string option"
  i_description :: "string option"

record Server =
  srv_url :: string
  srv_description :: "string option"

record ParsedApiSpec =
  info :: "Info option"
  servers :: "Server list option"
  endpoints :: "ApiEndpoint list"
  schemas :: "(string \<times> schema) list"
  securitySchemes :: "(string \<times> SecurityScheme option) list"
  globalSecurity :: "SecurityRequirement list option"

section \<open>JavaScript primitives used by the generator\<close>

text \<open>Truthiness of an optional string: \<open>undefined\<close> and \<open>''\<close> are falsy.\<close>

definition truthy :: "string option \<Rightarrow> bool" where
  "truthy s = (case s of None \<Rightarrow> False | Some v \<Rightarrow> v \<noteq> [])"

text \<open>\<open>s.startsWith(p)\<close>.\<close>

definition startsWith :: "string \<Rightarrow> string \<Rightarrow> bool" where
  "startsWith s p = prefix p s"

text \<open>
  \<open>s.replace(pat, rep)\<close> with a string pattern: the first occurrence of \<open>pat\<close> is
  replaced, the rest of the string is kept. (The replacement strings of this program
  hold no \<open>$\<close> pattern.)
\<close>

fun replace_first :: "string \<Rightarrow> string \<Rightarrow> string \<Rightarrow> string" where
  "replace_first pat rep [] = (if pat = [] then rep else [])"
| "replace_first pat rep (c # cs) =
     (if prefix pat (c # cs) then rep @ drop (length pat) (c # cs)
      else c # replace_first pat rep cs)"

text \<open>\<open>s.replace(/_/g, '.')\<close>: every underscore becomes a dot.\<close>

definition underscores_to_dots :: "string \<Rightarrow> string" where
  "underscores_to_dots s = map (\<lambda>c. if c = CHR ''_'' then CHR ''.'' else c) s"

text \<open>
  The assignment \<open>obj[key] = value\<close> on a plain object: it overwrites the value of a key
  the object has (the key keeps its place) or appends the key. Under the key \<open>__proto__\<close>
  the assignment runs the setter that the object inherits from \<open>Object.prototype\<close>
  instead, and the object gets no key.
\<close>

definition obj_set :: "string \<Rightarrow> 'a \<Rightarrow> (string \<times> 'a) list \<Rightarrow> (string \<times> 'a) list" where
  "obj_set key v obj = (if key = ''__proto__'' then obj else AList.update key v obj)"

text \<open>\<open>Object.assign(target, source)\<close> on dictionaries: each entry of the source, in order,
  is assigned to the target.\<close>

definition obj_assign :: "(string \<times> 'a) list \<Rightarrow> (string \<times> 'a) list \<Rightarrow> (string \<times> 'a) list" where
  "obj_assign target source = fold (\<lambda>(k, v) t. obj_set k v t) source target"

text \<open>The spread \<open>{ ...a, ...b }\<close> on dictionaries: it defines each key, \<open>__proto__\<close> as any
  other.\<close>

definition obj_spread :: "(string \<times> 'a) list \<Rightarrow> (string \<times> 'a) list \<Rightarrow> (string \<times> 'a) list" where
  "obj_spread a b = fold (\<lambda>(k, v) t. AList.update k v t) b a"

section \<open>Schema resolver (src/core/generator.ts)\<close>

text \<open>
  The registry \<open>spec.schemas\<close> is a plain object, so reading \<open>spec.schemas[name]\<close> also
  finds the properties that every object inherits from \<open>Object.prototype\<close>: for a name
  in the list below that is not a key of the registry, the read gives the inherited
  function (for \<open>__proto__\<close>, the prototype object), not \<open>undefined\<close>.
\<close>

definition object_prototype_keys :: "string list" where
  "object_prototype_keys = [''constructor'', ''__defineGetter__'', ''__defineSetter__'',
     ''hasOwnProperty'', ''__lookupGetter__'', ''__lookupSetter__'', ''isPrototypeOf'',
     ''propertyIsEnumerable'', ''toString'', ''valueOf'', ''__proto__'', ''toLocaleString'']"

text \<open>
  An inherited value is truthy and is not a schema. It has none of the keys that the
  generator reads from a schema (\<open>$ref\<close>, \<open>type\<close>, \<open>properties\<close>, \<open>required\<close>, \<open>allOf\<close>, ...)
  and no enumerable key for an object spread to copy, so wherever the generator uses it
  as a schema it reads as the empty object \<open>{}\<close>, which stands for it here.
\<close>

definition inherited_value :: schema where
  "inherited_value = Schema None None None no_facets [] None None None None None None"

text \<open>\<open>registry[name]\<close>: the registry's own entry, else the inherited value, else
  \<open>undefined\<close>.\<close>

definition registry_get :: "(string \<times> schema) list \<Rightarrow> string \<Rightarrow> schema option" where
  "registry_get registry name =
     (case map_of registry name of
        Some entry \<Rightarrow> Some entry
      | None \<Rightarrow> if name \<in> set object_prototype_keys then Some inherited_value else None)"

text \<open>
  \<open>resolveSchemaReference(ref, spec)\<close>. In \<open>spec.schemas[name] || null\<close> an entry and an
  inherited value are both truthy. The \<open>try\<close> block has nothing to catch on a string and
  a dictionary.
\<close>

definition resolveSchemaReference :: "string \<Rightarrow> ('z ParsedApiSpec_scheme) \<Rightarrow> schema option" where
  "resolveSchemaReference ref spec =
     (if startsWith ref ''#/components/schemas/'' then
        (let schemaName = replace_first ''#/components/schemas/'' [] ref
         in registry_get (schemas spec) schemaName)
      else if startsWith ref ''#/definitions/'' then
        (let schemaName = replace_first ''#/definitions/'' [] ref
         in registry_get (schemas spec) schemaName)
      else None)"

text \<open>
  The member loop shared by the \<open>allOf\<close> and \<open>anyOf\<close> branches of
  \<open>resolveSchemaComposition\<close>: the state is the schema under construction
  (\<open>resolvedSchema\<close>), of which the loop writes \<open>properties\<close>, \<open>required\<close> and \<open>type\<close>.
\<close>

definition resolveMember :: "('z ParsedApiSpec_scheme) \<Rightarrow> schema \<Rightarrow> schema" where
  "resolveMember spec subSchema =
     (if truthy (s_ref subSchema) then
        (case resolveSchemaReference (the (s_ref subSchema)) spec of
           Some r \<Rightarrow> r
         | None \<Rightarrow> subSchema)
      else subSchema)"

fun mergeMembers :: "('z ParsedApiSpec_scheme) \<Rightarrow> schema list \<Rightarrow>
    (string \<times> schema) list \<times> string list \<times> string option \<Rightarrow>
    (string \<times> schema) list \<times> string list \<times> string option" where
  "mergeMembers spec [] st = st"
| "mergeMembers spec (subSchema # rest) (props, req, ty) =
     (let resolvedSubSchema = resolveMember spec subSchema;
          props' = (case s_properties resolvedSubSchema of
                      Some ps \<Rightarrow> obj_assign props ps | None \<Rightarrow> props);
          req' = (case s_required resolvedSubSchema of
                    Some rs \<Rightarrow> req @ rs | None \<Rightarrow> req);
          ty' = (if \<not> truthy ty \<and> truthy (s_type resolvedSubSchema)
                 then s_type resolvedSubSchema else ty)
      in mergeMembers spec rest (props', req', ty'))"

definition mergeInto :: "('z ParsedApiSpec_scheme) \<Rightarrow> schema list \<Rightarrow> schema \<Rightarrow> schema" where
  "mergeInto spec members resolvedSchema =
     (case mergeMembers spec members ([], [], s_type resolvedSchema) of
        (props, req, ty) \<Rightarrow>
          Schema ty (s_ref resolvedSchema) (s_description resolvedSchema)
            (s_facets resolvedSchema) (s_extras resolvedSchema) (s_items resolvedSchema)
            (Some props) (Some req)
            (s_allOf resolvedSchema) (s_oneOf resolvedSchema) (s_anyOf resolvedSchema))"

text \<open>
  The object spread \<open>{ ...resolvedSchema, ...firstSchema }\<close>: every key the second object
  has overrides the first.
\<close>

definition or_else :: "'a option \<Rightarrow> 'a option \<Rightarrow> 'a option" where
  "or_else b a = (case b of Some v \<Rightarrow> Some v | None \<Rightarrow> a)"

definition spread_facets :: "facets \<Rightarrow> facets \<Rightarrow> facets" where
  "spread_facets a b =
     \<lparr> f_enum = or_else (f_enum b) (f_enum a),
       f_format = or_else (f_format b) (f_format a),
       f_minimum = or_else (f_minimum b) (f_minimum a),
       f_maximum = or_else (f_maximum b) (f_maximum a),
       f_minLength = or_else (f_minLength b) (f_minLength a),
       f_maxLength = or_else (f_maxLength b) (f_maxLength a),
       f_pattern = or_else (f_pattern b) (f_pattern a) \<rparr>"

definition spread :: "schema \<Rightarrow> schema \<Rightarrow> schema" where
  "spread a b =
     Schema (or_else (s_type b) (s_type a)) (or_else (s_ref b) (s_ref a))
       (or_else (s_description b) (s_description a))
       (spread_facets (s_facets a) (s_facets b))
       (obj_spread (s_extras a) (s_extras b))
       (or_else (s_items b) (s_items a))
       (or_else (s_properties b) (s_properties a))
       (or_else (s_required b) (s_required a))
       (or_else (s_allOf b) (s_allOf a))
       (or_else (s_oneOf b) (s_oneOf a))
       (or_else (s_anyOf b) (s_anyOf a))"

text \<open>\<open>resolveSchemaComposition(schema, spec)\<close>: the three blocks in the source's order.\<close>

definition resolveSchemaComposition :: "schema \<Rightarrow> ('z ParsedApiSpec_scheme) \<Rightarrow> schema" where
  "resolveSchemaComposition schema spec =
     (let r0 = schema;
          r1 = (case s_allOf schema of
                  Some members \<Rightarrow> mergeInto spec members r0
                | None \<Rightarrow> r0);
          r2 = (case s_oneOf schema of
                  Some (firstSchema # _) \<Rightarrow> spread r1 (resolveMember spec firstSchema)
                | _ \<Rightarrow> r1);
          r3 = (case s_anyOf schema of
                  Some members \<Rightarrow> mergeInto spec members r2
                | None \<Rightarrow> r2)
      in r3)"

section \<open>Reading the resolver's results\<close>

definition props_of :: "schema \<Rightarrow> (string \<times> schema) list" where
  "props_of s = (case s_properties s of Some ps \<Rightarrow> ps | None \<Rightarrow> [])"

definition required_of :: "schema \<Rightarrow> string list" where
  "required_of s = (case s_required s of Some rs \<Rightarrow> rs | None \<Rightarrow> [])"

text \<open>A dictionary has each key once; and none of the schema's properties is named
  \<open>__proto__\<close>, which \<open>Object.assign\<close> does not copy.\<close>

definition object_keys_ok :: "schema \<Rightarrow> bool" where
  "object_keys_ok s =
     (distinct (map fst (props_of s)) \<and> ''__proto__'' \<notin> set (map fst (props_of s)))"

text \<open>The registry key a reference names, when it has one of the two standard prefixes.\<close>

definition ref_name :: "string \<Rightarrow> string option" where
  "ref_name ref =
     (if prefix ''#/components/schemas/'' ref
        then Some (drop (length ''#/components/schemas/'') ref)
      else if prefix ''#/definitions/'' ref
        then Some (drop (length ''#/definitions/'') ref)
      else None)"

text \<open>
  What the specification says of a member of a composition, in its own words: the member
  with its own \<open>$ref\<close> resolved, that is the registry entry the \<open>$ref\<close> names; a member
  with no \<open>$ref\<close>, or with one that names no registry entry, is taken as it is.
\<close>

definition member_schema :: "('z ParsedApiSpec_scheme) \<Rightarrow> schema \<Rightarrow> schema" where
  "member_schema spec sub =
     (case s_ref sub of
        None \<Rightarrow> sub
      | Some ref \<Rightarrow>
          (case ref_name ref of
             None \<Rightarrow> sub
           | Some name \<Rightarrow>
               (case map_of (schemas spec) name of
                  None \<Rightarrow> sub
                | Some entry \<Rightarrow> entry)))"

text \<open>
  A member whose \<open>$ref\<close> names no registry entry but a property inherited from
  \<open>Object.prototype\<close>.
\<close>

definition names_inherited :: "('z ParsedApiSpec_scheme) \<Rightarrow> schema \<Rightarrow> bool" where
  "names_inherited spec sub =
     (case s_ref sub of
        None \<Rightarrow> False
      | Some ref \<Rightarrow>
          (case ref_name ref of
             None \<Rightarrow> False
           | Some name \<Rightarrow>
               map_of (schemas spec) name = None \<and> name \<in> set object_prototype_keys))"

text \<open>
  What the specification says of \<open>allOf\<close>: the union of the members' properties, a later
  member overriding an earlier one; the members' required lists, one after the other; the
  type of the first member that declares one.
\<close>

definition allOf_properties :: "('z ParsedApiSpec_scheme) \<Rightarrow> schema list \<Rightarrow> (string \<rightharpoonup> schema)" where
  "allOf_properties spec members =
     foldl (\<lambda>m sub. m ++ map_of (props_of (member_schema spec sub))) Map.empty members"

definition allOf_required :: "('z ParsedApiSpec_scheme) \<Rightarrow> schema list \<Rightarrow> string list" where
  "allOf_required spec members =
     concat (map (\<lambda>sub. required_of (member_schema spec sub)) members)"

definition allOf_type :: "('z ParsedApiSpec_scheme) \<Rightarrow> schema list \<Rightarrow> string option" where
  "allOf_type spec members =
     (case filter (\<lambda>sub. truthy (s_type (member_schema spec sub))) members of
        [] \<Rightarrow> None
      | sub # _ \<Rightarrow> s_type (member_schema spec sub))"

section \<open>Example documents\<close>

text \<open>\<open>{ type: ty }\<close>, \<open>{ $ref: r }\<close>, \<open>{ properties: ps }\<close> and
  \<open>{ type: 'object', properties: ps, required: rs }\<close>.\<close>

definition typed :: "string \<Rightarrow> schema" where
  "typed ty = Schema (Some ty) None None no_facets [] None None None None None None"

definition reference :: "string \<Rightarrow> schema" where
  "reference r = Schema None (Some r) None no_facets [] None None None None None None"

definition with_properties :: "(string \<times> schema) list \<Rightarrow> schema" where
  "with_properties ps = Schema None None None no_facets [] None (Some ps) None None None None"

definition object_schema :: "(string \<times> schema) list \<Rightarrow> string list option \<Rightarrow> schema" where
  "object_schema ps rs =
     Schema (Some ''object'') None None no_facets [] None (Some ps) rs None None None"

definition registry_spec :: "(string \<times> schema) list \<Rightarrow> ParsedApiSpec" where
  "registry_spec reg = \<lparr> info = None, servers = None, endpoints = [], schemas = reg,
     securitySchemes = [], globalSecurity = None \<rparr>"

text \<open>\<open>{ allOf: [{properties: {a: {type: 'string'}}}], anyOf: [{properties: {b: {type: 'string'}}}] }\<close>\<close>

definition allOf_and_anyOf :: schema where
  "allOf_and_anyOf = Schema None None None no_facets [] None None None
     (Some [with_properties [(''a'', typed ''string'')]]) None
     (Some [with_properties [(''b'', typed ''string'')]])"

section \<open>Flattening engine (src/core/generator.ts)\<close>

text \<open>
  The "simplified property definition" that \<open>convertSchemaToZod\<close> builds, and the
  property of a tool's input schema: that object with the marks its callers set on it
  afterwards (\<open>isPathParam\<close>, ..., \<open>originalPath\<close>, \<open>parentObject\<close>, \<open>isFlattened\<close>). A mark
  that was never set is \<open>False\<close> or \<open>None\<close>.
\<close>

datatype zod = Zod
  (z_type: string)
  (z_description: string)
  (z_facets: facets)
  (z_items: "zod option")

record FlatProperty =
  base :: zod
  isPathParam :: bool
  isQueryParam :: bool
  isHeaderParam :: bool
  isBodyParam :: bool
  originalPath :: "string option"
  parentObject :: "string option"
  isFlattened :: bool

definition unmarked :: "zod \<Rightarrow> FlatProperty" where
  "unmarked z = \<lparr> base = z, isPathParam = False, isQueryParam = False, isHeaderParam = False,
     isBodyParam = False, originalPath = None, parentObject = None, isFlattened = False \<rparr>"

text \<open>The pair \<open>{ properties, required }\<close> that extraction and flattening return.\<close>

record extracted =
  properties :: "(string \<times> FlatProperty) list"
  required :: "string list"

definition mapOpenApiTypeToZod :: "string \<Rightarrow> string" where
  "mapOpenApiTypeToZod ty =
     (if ty = ''integer'' \<or> ty = ''number'' then ''number''
      else if ty = ''boolean'' then ''boolean''
      else if ty = ''array'' then ''array''
      else if ty = ''object'' then ''object''
      else ''string'')"

text \<open>\<open>a || b\<close> on an optional string and a string.\<close>

definition str_or :: "string option \<Rightarrow> string \<Rightarrow> string" where
  "str_or a b = (if truthy a then the a else b)"

definition keep_truthy :: "string option \<Rightarrow> string option" where
  "keep_truthy a = (if truthy a then a else None)"

definition convertFacets :: "facets \<Rightarrow> facets" where
  "convertFacets f =
     \<lparr> f_enum = f_enum f, f_format = keep_truthy (f_format f),
       f_minimum = f_minimum f, f_maximum = f_maximum f,
       f_minLength = f_minLength f, f_maxLength = f_maxLength f,
       f_pattern = keep_truthy (f_pattern f) \<rparr>"

text \<open>\<open>convertSchemaToZod\<close> on a schema that is there; the parameter name is not used.\<close>

fun convertSchema :: "schema \<Rightarrow> string option \<Rightarrow> zod" where
  "convertSchema (Schema ty ref desc fac ex items props req al on an) paramDescription =
     Zod (mapOpenApiTypeToZod (str_or ty ''string''))
       (str_or desc (str_or paramDescription ''Parameter value''))
       (convertFacets fac)
       (case items of
          Some it \<Rightarrow> if ty = Some ''array'' then Some (convertSchema it None) else None
        | None \<Rightarrow> None)"

definition convertSchemaToZod :: "schema option \<Rightarrow> string option \<Rightarrow> zod" where
  "convertSchemaToZod schema paramDescription =
     (case schema of
        None \<Rightarrow> Zod ''string'' (str_or paramDescription ''Parameter value'') no_facets None
      | Some s \<Rightarrow> convertSchema s paramDescription)"

definition shouldFlattenObject :: "schema \<Rightarrow> bool" where
  "shouldFlattenObject schema =
     (case s_properties schema of None \<Rightarrow> False | Some ps \<Rightarrow> ps \<noteq> [])"

text \<open>The names \<open>flattenNestedObject\<close> computes for a property.\<close>

definition flattenedName :: "string \<Rightarrow> string \<Rightarrow> string \<Rightarrow> string" where
  "flattenedName parentName pfx propName =
     (if pfx \<noteq> [] then pfx @ ''_'' @ propName else parentName @ ''_'' @ propName)"

definition originalPathOf :: "string \<Rightarrow> string \<Rightarrow> string \<Rightarrow> string" where
  "originalPathOf parentName pfx propName =
     (if pfx \<noteq> []
      then parentName @ ''.'' @
           underscores_to_dots (replace_first (parentName @ ''_'') [] pfx) @ ''.'' @ propName
      else parentName @ ''.'' @ propName)"

text \<open>\<open>resolvedSchema.type === 'object' && resolvedSchema.properties\<close>\<close>

definition isNestedObject :: "schema \<Rightarrow> bool" where
  "isNestedObject s = (s_type s = Some ''object'' \<and> s_properties s \<noteq> None)"

definition empty_extracted :: extracted where
  "empty_extracted = \<lparr> properties = [], required = [] \<rparr>"

text \<open>\<open>Object.assign(properties, r.properties); required.push(...r.required)\<close>\<close>

definition absorb :: "extracted \<Rightarrow> extracted \<Rightarrow> extracted" where
  "absorb acc r = \<lparr> properties = obj_assign (properties acc) (properties r),
                    required = required acc @ required r \<rparr>"

text \<open>
  \<open>flattenNestedObject(schema, spec, parentName, prefix)\<close>. The source recurses with no
  guard, so the model carries the call depth still available: each call of
  \<open>flattenNestedObject\<close> takes one unit, and \<open>None\<close> is the call stack running out.
  \<open>flattenLoop\<close> is the \<open>for\<close> loop over \<open>Object.entries(schema.properties)\<close>, its state the
  two locals \<open>properties\<close> and \<open>required\<close>.
\<close>

fun flattenNestedObject ::
    "nat \<Rightarrow> ('z ParsedApiSpec_scheme) \<Rightarrow> schema \<Rightarrow> string \<Rightarrow> string \<Rightarrow> extracted option"
  and flattenLoop ::
    "nat \<Rightarrow> ('z ParsedApiSpec_scheme) \<Rightarrow> schema \<Rightarrow> string \<Rightarrow> string \<Rightarrow>
     (string \<times> schema) list \<Rightarrow> extracted \<Rightarrow> extracted option"
  where
  "flattenNestedObject 0 spec schema parentName pfx = None"
| "flattenNestedObject (Suc n) spec schema parentName pfx =
     (case s_properties schema of
        None \<Rightarrow> Some empty_extracted
      | Some props \<Rightarrow> flattenLoop n spec schema parentName pfx props empty_extracted)"
| "flattenLoop n spec schema parentName pfx [] acc = Some acc"
| "flattenLoop n spec schema parentName pfx ((propName, propSchema) # rest) acc =
     (let name = flattenedName parentName pfx propName;
          resolvedSchema = resolveMember spec propSchema
      in if isNestedObject resolvedSchema then
           (case flattenNestedObject n spec resolvedSchema parentName name of
              None \<Rightarrow> None
            | Some nestedFlattened \<Rightarrow>
                flattenLoop n spec schema parentName pfx rest (absorb acc nestedFlattened))
         else
           (let flatProp = (unmarked (convertSchemaToZod (Some resolvedSchema)
                              (s_description resolvedSchema)))
                  \<lparr> originalPath := Some (originalPathOf parentName pfx propName),
                    parentObject := Some parentName,
                    isFlattened := True \<rparr>
            in flattenLoop n spec schema parentName pfx rest
                 \<lparr> properties = obj_set name flatProp (properties acc),
                   required = (case s_required schema of
                                 Some rs \<Rightarrow> if propName \<in> set rs
                                            then required acc @ [name] else required acc
                               | None \<Rightarrow> required acc) \<rparr>))"

text \<open>The \<open>for\<close> loop of \<open>extractSchemaProperties\<close> over the resolved schema's properties.\<close>

fun extractLoop ::
    "nat \<Rightarrow> ('z ParsedApiSpec_scheme) \<Rightarrow> (string \<times> schema) list \<Rightarrow> extracted \<Rightarrow> extracted option"
  where
  "extractLoop n spec [] acc = Some acc"
| "extractLoop n spec ((propName, propSchema) # rest) acc =
     (let direct = (\<lambda>s. extractLoop n spec rest
                      (acc\<lparr> properties := obj_set propName
                             (unmarked (convertSchemaToZod (Some s) (s_description s)))
                             (properties acc) \<rparr>));
          flatten = (\<lambda>s. case flattenNestedObject n spec s propName [] of
                       None \<Rightarrow> None
                     | Some flattenedProps \<Rightarrow> extractLoop n spec rest (absorb acc flattenedProps))
      in if truthy (s_ref propSchema) then
           (case resolveSchemaReference (the (s_ref propSchema)) spec of
              Some nestedResolvedSchema \<Rightarrow>
                if shouldFlattenObject nestedResolvedSchema
                then flatten nestedResolvedSchema
                else direct nestedResolvedSchema
            | None \<Rightarrow> direct propSchema)
         else if s_type propSchema = Some ''object'' \<and> shouldFlattenObject propSchema then
           flatten propSchema
         else
           (let compositeResolvedPropSchema = resolveSchemaComposition propSchema spec
            in if s_type compositeResolvedPropSchema = Some ''object''
                  \<and> shouldFlattenObject compositeResolvedPropSchema
               then flatten compositeResolvedPropSchema
               else direct compositeResolvedPropSchema))"

text \<open>
  \<open>extractSchemaProperties(schema, spec)\<close>, with the call depth still available as for
  \<open>flattenNestedObject\<close>: the call takes one unit, and what it calls gets the rest.
\<close>

fun extractSchemaProperties ::
    "nat \<Rightarrow> ('z ParsedApiSpec_scheme) \<Rightarrow> schema \<Rightarrow> extracted option" where
  "extractSchemaProperties 0 spec schema = None"
| "extractSchemaProperties (Suc n) spec schema =
     (case (if truthy (s_ref schema) then resolveSchemaReference (the (s_ref schema)) spec
            else None) of
        Some resolvedSchema \<Rightarrow> extractSchemaProperties n spec resolvedSchema
      | None \<Rightarrow>
          (let resolvedSchema = resolveSchemaComposition schema spec
           in case (case s_properties resolvedSchema of
                      Some props \<Rightarrow> extractLoop n spec props empty_extracted
                    | None \<Rightarrow> Some empty_extracted) of
                None \<Rightarrow> None
              | Some acc \<Rightarrow> Some (acc\<lparr> required := required acc @ required_of resolvedSchema \<rparr>)))"

section \<open>Required leaves\<close>

text \<open>
  \<open>required_leaf spec parentName pfx req props x\<close>: below an object with the properties
  \<open>props\<close> and the required list \<open>req\<close>, reached with the name prefix \<open>pfx\<close>, there is a
  leaf field (one that is not itself a nested object) whose flattened name is \<open>x\<close> and
  which the required list of the object that directly holds it names. Nothing is asked
  of the objects on the way down.
\<close>

inductive required_leaf ::
    "('z ParsedApiSpec_scheme) \<Rightarrow> string \<Rightarrow> string \<Rightarrow> string list \<Rightarrow>
     (string \<times> schema) list \<Rightarrow> string \<Rightarrow> bool"
  for spec :: "'z ParsedApiSpec_scheme" and parentName :: string
  where
  here: "(propName, propSchema) \<in> set props \<Longrightarrow>
         \<not> isNestedObject (resolveMember spec propSchema) \<Longrightarrow>
         propName \<in> set req \<Longrightarrow>
         required_leaf spec parentName pfx req props (flattenedName parentName pfx propName)"
| below: "(propName, propSchema) \<in> set props \<Longrightarrow>
          isNestedObject (resolveMember spec propSchema) \<Longrightarrow>
          required_leaf spec parentName (flattenedName parentName pfx propName)
            (required_of (resolveMember spec propSchema))
            (props_of (resolveMember spec propSchema)) x \<Longrightarrow>
          required_leaf spec parentName pfx req props x"

text \<open>\<open>{type: 'object', properties: {owner: {type: 'object', properties: {name: {type:
  'string'}}, required: ['name']}}}\<close>: \<open>owner\<close> is not required.\<close>

definition owner_schema :: schema where
  "owner_schema = object_schema [(''name'', typed ''string'')] (Some [''name''])"

definition owner_body :: schema where
  "owner_body = object_schema [(''owner'', owner_schema)] None"

text \<open>\<open>{type: 'object', properties: {owner: {type: 'object', properties: {home_address:
  {type: 'object', properties: {street: {type: 'string'}}}}}}}\<close>\<close>

definition address_body :: schema where
  "address_body = object_schema
     [(''owner'', object_schema
        [(''home_address'', object_schema [(''street'', typed ''string'')] None)] None)]
     None"

section \<open>The reference graph\<close>

text \<open>
  The references that extraction and flattening follow from a schema: its own \<open>$ref\<close> and,
  through \<open>properties\<close> at any depth, those of its property schemas.
\<close>

fun walked_refs :: "schema \<Rightarrow> string list" where
  "walked_refs (Schema ty ref desc fac ex items props req al on an) =
     (case ref of Some r \<Rightarrow> [r] | None \<Rightarrow> []) @
     (case props of
        Some ps \<Rightarrow> concat (map (\<lambda>(k, s). walked_refs s) ps)
      | None \<Rightarrow> [])"

text \<open>
  The registry is acyclic along the walked references when its keys can be ranked so that
  every walked reference inside an entry that resolves leads to an entry of lower rank.
\<close>

definition acyclic_registry :: "(string \<Rightarrow> nat) \<Rightarrow> ('z ParsedApiSpec_scheme) \<Rightarrow> bool" where
  "acyclic_registry rank spec =
     list_all (\<lambda>(k, t).
        list_all (\<lambda>ref. case ref_name ref of
                          None \<Rightarrow> True
                        | Some k' \<Rightarrow> map_of (schemas spec) k' = None \<or> rank k' < rank k)
          (walked_refs t))
       (schemas spec)"

definition refs_below :: "(string \<Rightarrow> nat) \<Rightarrow> ('z ParsedApiSpec_scheme) \<Rightarrow> nat \<Rightarrow> schema \<Rightarrow> bool" where
  "refs_below rank spec r s =
     list_all (\<lambda>ref. case ref_name ref of
                       None \<Rightarrow> True
                     | Some k \<Rightarrow> map_of (schemas spec) k = None \<or> rank k < r)
       (walked_refs s)"

text \<open>\<open>A = {type: 'object', properties: {child: {$ref: '#/components/schemas/A'}}}\<close>\<close>

definition self_ref_schema :: schema where
  "self_ref_schema = object_schema [(''child'', reference ''#/components/schemas/A'')] None"

definition self_ref_spec :: ParsedApiSpec where
  "self_ref_spec = registry_spec [(''A'', self_ref_schema)]"

text \<open>\<open>Pet = {type: 'object', properties: {owner: {$ref: '#/components/schemas/Owner'}}}\<close>,
  \<open>Owner = {type: 'object', properties: {name: {type: 'string'}}, required: ['name']}\<close>\<close>

definition pet_schema :: schema where
  "pet_schema = object_schema [(''owner'', reference ''#/components/schemas/Owner'')] None"

definition pet_spec :: ParsedApiSpec where
  "pet_spec = registry_spec [(''Pet'', pet_schema), (''Owner'', owner_schema)]"

definition pet_rank :: "string \<Rightarrow> nat" where
  "pet_rank k = (if k = ''Pet'' then 1 else 0)"

section \<open>More JavaScript string primitives\<close>

text \<open>\<open>toLowerCase\<close> and \<open>toUpperCase\<close>, on the ASCII letters.\<close>

definition toLowerChar :: "char \<Rightarrow> char" where
  "toLowerChar c =
     (case map_of (zip ''ABCDEFGHIJKLMNOPQRSTUVWXYZ'' ''abcdefghijklmnopqrstuvwxyz'') c of
        Some l \<Rightarrow> l | None \<Rightarrow> c)"

definition toUpperChar :: "char \<Rightarrow> char" where
  "toUpperChar c =
     (case map_of (zip ''abcdefghijklmnopqrstuvwxyz'' ''ABCDEFGHIJKLMNOPQRSTUVWXYZ'') c of
        Some u \<Rightarrow> u | None \<Rightarrow> c)"

definition toLowerCase :: "string \<Rightarrow> string" where
  "toLowerCase s = map toLowerChar s"

definition toUpperCase :: "string \<Rightarrow> string" where
  "toUpperCase s = map toUpperChar s"

definition isUpper :: "char \<Rightarrow> bool" where
  "isUpper c = (c \<in> set ''ABCDEFGHIJKLMNOPQRSTUVWXYZ'')"

definition isAlnum :: "char \<Rightarrow> bool" where
  "isAlnum c =
     (c \<in> set ''abcdefghijklmnopqrstuvwxyzABCDEFGHIJKLMNOPQRSTUVWXYZ0123456789'')"

text \<open>\<open>s.includes(p)\<close>: \<open>p\<close> occurs in \<open>s\<close>.\<close>

fun str_includes :: "string \<Rightarrow> string \<Rightarrow> bool" where
  "str_includes [] p = (p = [])"
| "str_includes (c # cs) p = (prefix p (c # cs) \<or> str_includes cs p)"

text \<open>\<open>s.split(sep)\<close> for a one-character separator; the result is never empty.\<close>

fun str_split :: "char \<Rightarrow> string \<Rightarrow> string list" where
  "str_split sep [] = [[]]"
| "str_split sep (c # cs) =
     (if c = sep then [] # str_split sep cs
      else (case str_split sep cs of
              w # ws \<Rightarrow> (c # w) # ws
            | [] \<Rightarrow> [[c]]))"

text \<open>\<open>parts.join(sep)\<close>\<close>

fun str_join :: "string \<Rightarrow> string list \<Rightarrow> string" where
  "str_join sep [] = []"
| "str_join sep [x] = x"
| "str_join sep (x # y # ys) = x @ sep @ str_join sep (y # ys)"

section \<open>Tool synthesizer (src/core/generator.ts)\<close>

record AuthenticationSpec =
  a_type :: string
  a_location :: "string option"
  a_name :: "string option"
  a_envVariable :: "string option"

record HeaderParam =
  h_name :: string
  h_paramName :: string
  h_required :: bool
  h_description :: string

record InputSchema =
  in_type :: string
  in_properties :: "(string \<times> FlatProperty) list"
  in_required :: "string list option"

record ResponseHandlingSpec =
  successCodes :: "int list"
  responseType :: string

record ErrorHandlingSpec =
  retryCount :: int
  timeoutMs :: int
  errorCodes :: "(int \<times> string) list"

text \<open>The values that a tool object holds under its keys.\<close>

datatype tool_value =
    VString string
  | VInputSchema InputSchema
  | VAuthentication AuthenticationSpec
  | VHeaderParams "HeaderParam list"
  | VResponseHandling ResponseHandlingSpec
  | VErrorHandling ErrorHandlingSpec

text \<open>
  The object that \<open>generateMcpTool\<close> builds is a dictionary: its keys with their values,
  in the order of the object literal. It is not a record of \<open>interface McpToolSpec\<close>:
  the literal spreads in keys only when their values are there, among them one,
  \<open>headerParams\<close>, that the interface does not declare.
\<close>

type_synonym McpToolSpec = "(string \<times> tool_value) list"

text \<open>\<open>Object.keys(tool)\<close>, and \<open>tool.name\<close>, \<open>tool.baseUrl\<close> and \<open>tool.inputSchema\<close>:
  \<open>None\<close> when the tool has no such key.\<close>

definition tool_keys :: "McpToolSpec \<Rightarrow> string list" where
  "tool_keys tool = map fst tool"

definition t_name :: "McpToolSpec \<Rightarrow> string option" where
  "t_name tool = (case map_of tool ''name'' of Some (VString s) \<Rightarrow> Some s | _ \<Rightarrow> None)"

definition t_baseUrl :: "McpToolSpec \<Rightarrow> string option" where
  "t_baseUrl tool = (case map_of tool ''baseUrl'' of Some (VString s) \<Rightarrow> Some s | _ \<Rightarrow> None)"

definition t_inputSchema :: "McpToolSpec \<Rightarrow> InputSchema option" where
  "t_inputSchema tool =
     (case map_of tool ''inputSchema'' of Some (VInputSchema i) \<Rightarrow> Some i | _ \<Rightarrow> None)"

definition authPatterns :: "string list" where
  "authPatterns = [''/auth/login'', ''/auth/token'', ''/token'', ''/login'', ''/oauth/token'',
     ''/auth/oauth/token'', ''/v2/auth/login'']"

definition isAuthenticationEndpoint :: "('z ApiEndpoint_scheme) \<Rightarrow> bool" where
  "isAuthenticationEndpoint endpoint =
     (let pathMatches =
            list_ex (\<lambda>pattern. str_includes (toLowerCase (e_path endpoint)) (toLowerCase pattern))
              authPatterns;
          operationIdMatches =
            (if truthy (e_operationId endpoint)
             then list_ex (\<lambda>keyword. str_includes (toLowerCase (the (e_operationId endpoint))) keyword)
                    [''token'', ''auth'', ''login'', ''authenticate'']
             else False);
          text = (if truthy (e_description endpoint) then e_description endpoint
                  else e_summary endpoint);
          descriptionMatches =
            (if truthy text
             then list_ex (\<lambda>keyword. str_includes (toLowerCase (str_or text [])) keyword)
                    [''access token'', ''authentication'', ''login'', ''auth'']
             else False)
      in pathMatches \<or> operationIdMatches \<or> descriptionMatches)"

definition camelToSnakeCase :: "string \<Rightarrow> string" where
  "camelToSnakeCase str =
     (let s = concat (map (\<lambda>c. if isUpper c then [CHR ''_'', toLowerChar c] else [c]) str)
      in case s of
           c # cs \<Rightarrow> if c = CHR ''_'' then cs else s
         | [] \<Rightarrow> [])"

text \<open>The path segments that are literal: not empty and not starting with \<open>{\<close>.\<close>

definition literalParts :: "string \<Rightarrow> string list" where
  "literalParts path = filter (\<lambda>part. part \<noteq> [] \<and> \<not> startsWith part ''{'') (str_split CHR ''/'' path)"

definition generateToolName :: "('z ApiEndpoint_scheme) \<Rightarrow> string" where
  "generateToolName endpoint =
     (if truthy (e_operationId endpoint) then camelToSnakeCase (the (e_operationId endpoint))
      else (let method = toLowerCase (e_method endpoint);
                pathParts = map (filter isAlnum) (literalParts (e_path endpoint));
                pathName = str_join ''_'' pathParts
            in method @ ''_'' @ pathName))"

definition getActionFromMethod :: "string \<Rightarrow> string" where
  "getActionFromMethod method =
     (let m = toLowerCase method
      in if m = ''get'' then ''Retrieve''
         else if m = ''post'' then ''Create''
         else if m = ''put'' then ''Update''
         else if m = ''patch'' then ''Modify''
         else if m = ''delete'' then ''Delete''
         else ''Process'')"

definition getResourceFromPath :: "string \<Rightarrow> string" where
  "getResourceFromPath path =
     (let parts = literalParts path
      in if parts = [] then ''resource'' else last parts)"

definition generateToolDescription :: "('z ApiEndpoint_scheme) \<Rightarrow> string" where
  "generateToolDescription endpoint =
     (if truthy (e_description endpoint) then the (e_description endpoint)
      else if truthy (e_summary endpoint) then the (e_summary endpoint)
      else getActionFromMethod (e_method endpoint) @ '' '' @ getResourceFromPath (e_path endpoint))"

text \<open>
  The loops of \<open>generateInputSchema\<close> over \<open>endpoint.parameters\<close>; the state of each is the
  pair of the locals \<open>properties\<close> and \<open>required\<close>.
\<close>

definition paramProperty :: "('z Parameter_scheme) \<Rightarrow> FlatProperty" where
  "paramProperty param = unmarked (convertSchemaToZod (p_schema param) (p_description param))"

fun pathParams :: "('z Parameter_scheme) list \<Rightarrow> extracted \<Rightarrow> extracted" where
  "pathParams [] acc = acc"
| "pathParams (param # rest) acc =
     pathParams rest
       (if p_in param = ''path'' then
          \<lparr> properties = obj_set (p_name param)
                            ((paramProperty param)\<lparr> isPathParam := True \<rparr>) (properties acc),
            required = required acc @ [p_name param] \<rparr>
        else acc)"

fun queryParams :: "('z Parameter_scheme) list \<Rightarrow> extracted \<Rightarrow> extracted" where
  "queryParams [] acc = acc"
| "queryParams (param # rest) acc =
     queryParams rest
       (if p_in param = ''query'' then
          \<lparr> properties = obj_set (p_name param)
                            ((paramProperty param)\<lparr> isQueryParam := True \<rparr>) (properties acc),
            required = (if p_required param = Some True
                        then required acc @ [p_name param] else required acc) \<rparr>
        else acc)"

definition isSignatureHeader :: "string \<Rightarrow> bool" where
  "isSignatureHeader name =
     (str_includes (toLowerCase name) ''signature''
      \<or> str_includes (toLowerCase name) ''x-payload-signature'')"

fun headerParameters :: "('z Parameter_scheme) list \<Rightarrow> extracted \<Rightarrow> extracted" where
  "headerParameters [] acc = acc"
| "headerParameters (param # rest) acc =
     headerParameters rest
       (if p_in param = ''header'' \<and> \<not> isSignatureHeader (p_name param) then
          \<lparr> properties = obj_set (p_name param)
                            ((paramProperty param)\<lparr> isHeaderParam := True \<rparr>) (properties acc),
            required = (if p_required param = Some True
                        then required acc @ [p_name param] else required acc) \<rparr>
        else acc)"

text \<open>
  Adding the properties extracted from a body schema: each is marked \<open>isBodyParam\<close> and
  assigned; the required names are pushed when the body is required.
\<close>

definition addBody :: "extracted \<Rightarrow> bool \<Rightarrow> extracted \<Rightarrow> extracted" where
  "addBody bodyProperties isRequired acc =
     \<lparr> properties = obj_assign (properties acc)
                       (map (\<lambda>(propName, propSchema). (propName, propSchema\<lparr> isBodyParam := True \<rparr>))
                          (properties bodyProperties)),
       required = (if isRequired then required acc @ required bodyProperties
                   else required acc) \<rparr>"

fun bodyParams ::
    "nat \<Rightarrow> ('z ParsedApiSpec_scheme) \<Rightarrow> ('y Parameter_scheme) list \<Rightarrow> extracted \<Rightarrow> extracted option"
  where
  "bodyParams n spec [] acc = Some acc"
| "bodyParams n spec (param # rest) acc =
     (if p_in param = ''body'' \<and> p_schema param \<noteq> None then
        (case extractSchemaProperties n spec (the (p_schema param)) of
           None \<Rightarrow> None
         | Some bodyProperties \<Rightarrow>
             bodyParams n spec rest (addBody bodyProperties (p_required param = Some True) acc))
      else bodyParams n spec rest acc)"

text \<open>
  \<open>generateInputSchema(endpoint, spec)\<close>, with the call depth left for
  \<open>extractSchemaProperties\<close>; \<open>None\<close> is the exception of an exhausted call stack.
\<close>

definition generateInputSchema ::
    "nat \<Rightarrow> ('y ApiEndpoint_scheme) \<Rightarrow> ('z ParsedApiSpec_scheme) \<Rightarrow> InputSchema option" where
  "generateInputSchema n endpoint spec =
     (let acc1 = pathParams (e_parameters endpoint) empty_extracted;
          acc2 = queryParams (e_parameters endpoint) acc1;
          acc3 = headerParameters (e_parameters endpoint) acc2;
          jsonSchema =
            (case e_requestBody endpoint of
               None \<Rightarrow> None
             | Some rb \<Rightarrow>
                 (case rb_content rb of
                    None \<Rightarrow> None
                  | Some content \<Rightarrow>
                      (case map_of content ''application/json'' of
                         None \<Rightarrow> None
                       | Some jsonContent \<Rightarrow> jsonContent)));
          acc4 =
            (case jsonSchema of
               None \<Rightarrow> Some acc3
             | Some schema \<Rightarrow>
                 (case extractSchemaProperties n spec schema of
                    None \<Rightarrow> None
                  | Some bodyProperties \<Rightarrow>
                      Some (addBody bodyProperties
                              (rb_required (the (e_requestBody endpoint)) = Some True) acc3)))
      in case acc4 of
           None \<Rightarrow> None
         | Some a4 \<Rightarrow>
             (case bodyParams n spec (e_parameters endpoint) a4 of
                None \<Rightarrow> None
              | Some acc5 \<Rightarrow>
                  Some \<lparr> in_type = ''object'', in_properties = properties acc5,
                         in_required = (if required acc5 \<noteq> [] then Some (required acc5)
                                        else None) \<rparr>))"

text \<open>\<open>getBaseUrl(spec)\<close> of the generator.\<close>

definition getBaseUrl :: "('z ParsedApiSpec_scheme) \<Rightarrow> string" where
  "getBaseUrl spec =
     (case servers spec of
        Some (server # _) \<Rightarrow> srv_url server
      | _ \<Rightarrow> [])"

definition createAuthSpec ::
    "SecurityRequirement \<Rightarrow> ('z ParsedApiSpec_scheme) \<Rightarrow> AuthenticationSpec option" where
  "createAuthSpec securityReq spec =
     (case map fst securityReq of
        [] \<Rightarrow> None
      | schemeName # _ \<Rightarrow>
          if schemeName = [] then None
          else (case map_of (securitySchemes spec) schemeName of
                  None \<Rightarrow> None
                | Some None \<Rightarrow> None
                | Some (Some scheme) \<Rightarrow>
                    if ss_type scheme = ''apiKey'' then
                      Some \<lparr> a_type = ''apiKey'', a_location = ss_in scheme,
                             a_name = Some (str_or (ss_name scheme) ''apikey''),
                             a_envVariable = Some (toUpperCase schemeName @ ''_API_KEY'') \<rparr>
                    else if ss_type scheme = ''http'' then
                      (if ss_scheme scheme = Some ''bearer'' then
                         Some \<lparr> a_type = ''bearer'', a_location = None, a_name = None,
                                a_envVariable = Some (toUpperCase schemeName @ ''_TOKEN'') \<rparr>
                       else if ss_scheme scheme = Some ''basic'' then
                         Some \<lparr> a_type = ''basic'', a_location = None, a_name = None,
                                a_envVariable = Some (toUpperCase schemeName @ ''_CREDENTIALS'') \<rparr>
                       else None)
                    else if ss_type scheme = ''oauth2'' then
                      Some \<lparr> a_type = ''oauth2'', a_location = None, a_name = None,
                             a_envVariable = Some (toUpperCase schemeName @ ''_ACCESS_TOKEN'') \<rparr>
                    else None))"

definition generateAuthenticationSpec ::
    "('y ApiEndpoint_scheme) \<Rightarrow> ('z ParsedApiSpec_scheme) \<Rightarrow> AuthenticationSpec option" where
  "generateAuthenticationSpec endpoint spec =
     (case e_security endpoint of
        Some (req # _) \<Rightarrow> createAuthSpec req spec
      | _ \<Rightarrow>
          (case globalSecurity spec of
             Some (req # _) \<Rightarrow> createAuthSpec req spec
           | _ \<Rightarrow> None))"

text \<open>
  In \<open>createAuthSpec\<close> the read \<open>spec.securitySchemes[schemeName]\<close> can give an inherited
  value too; that has no \<open>type\<close>, so the \<open>switch\<close> matches nothing and the result is
  \<open>undefined\<close>, as it is for a name that is not there.
\<close>

text \<open>\<open>param.name.replace(/-/g, '_')\<close>\<close>

definition dashes_to_underscores :: "string \<Rightarrow> string" where
  "dashes_to_underscores s = map (\<lambda>c. if c = CHR ''-'' then CHR ''_'' else c) s"

definition headerParamsOf :: "('z Parameter_scheme) list \<Rightarrow> HeaderParam list" where
  "headerParamsOf params =
     map (\<lambda>param. \<lparr> h_name = p_name param,
                     h_paramName = dashes_to_underscores (p_name param),
                     h_required = (p_required param = Some True),
                     h_description = str_or (p_description param)
                                       (''Header parameter: '' @ p_name param) \<rparr>)
       (filter (\<lambda>param. p_in param = ''header'') params)"

text \<open>
  \<open>generateMcpTool(endpoint, spec)\<close>: \<open>None\<close> is the \<open>null\<close> that the \<open>catch\<close> block returns.
\<close>

definition generateMcpTool ::
    "nat \<Rightarrow> ('y ApiEndpoint_scheme) \<Rightarrow> ('z ParsedApiSpec_scheme) \<Rightarrow> McpToolSpec option" where
  "generateMcpTool n endpoint spec =
     (let toolName = generateToolName endpoint;
          description = generateToolDescription endpoint
      in case generateInputSchema n endpoint spec of
           None \<Rightarrow> None
         | Some inputSchema \<Rightarrow>
             (let baseUrl = getBaseUrl spec;
                  authentication = generateAuthenticationSpec endpoint spec;
                  headerParams = headerParamsOf (e_parameters endpoint)
              in Some
                   ([(''name'', VString toolName),
                     (''description'', VString description),
                     (''inputSchema'', VInputSchema inputSchema),
                     (''method'', VString (e_method endpoint)),
                     (''path'', VString (e_path endpoint)),
                     (''baseUrl'', VString baseUrl)]
                    @ (case authentication of
                         Some a \<Rightarrow> [(''authentication'', VAuthentication a)]
                       | None \<Rightarrow> [])
                    @ (if headerParams \<noteq> [] then [(''headerParams'', VHeaderParams headerParams)]
                       else [])
                    @ [(''responseHandling'',
                        VResponseHandling
                          \<lparr> successCodes = [200, 201, 204], responseType = ''json'' \<rparr>),
                       (''errorHandling'',
                        VErrorHandling
                          \<lparr> retryCount = 3, timeoutMs = 30000,
                            errorCodes = [(400, ''Bad Request''), (401, ''Unauthorized''),
                              (403, ''Forbidden''), (404, ''Not Found''),
                              (500, ''Internal Server Error'')] \<rparr>)])))"

text \<open>\<open>generate(spec)\<close>: the loop over \<open>spec.endpoints\<close>.\<close>

fun generateLoop ::
    "nat \<Rightarrow> ('z ParsedApiSpec_scheme) \<Rightarrow> ('y ApiEndpoint_scheme) list \<Rightarrow> McpToolSpec list" where
  "generateLoop n spec [] = []"
| "generateLoop n spec (endpoint # rest) =
     (if isAuthenticationEndpoint endpoint then generateLoop n spec rest
      else (case generateMcpTool n endpoint spec of
              Some tool \<Rightarrow> tool # generateLoop n spec rest
            | None \<Rightarrow> generateLoop n spec rest))"

definition generate :: "nat \<Rightarrow> ParsedApiSpec \<Rightarrow> McpToolSpec list" where
  "generate n spec = generateLoop n spec (endpoints spec)"

text \<open>The fields of \<open>McpToolSpec\<close> in the specification's data model.\<close>

definition data_model_fields :: "string list" where
  "data_model_fields = [''name'', ''description'', ''inputSchema'', ''method'', ''path'',
     ''baseUrl'', ''authentication'', ''responseHandling'', ''errorHandling'']"

section \<open>Example documents for the synthesizer\<close>

text \<open>\<open>GET /pets/{id}\<close> with the required path parameter \<open>id\<close> of type string and
  \<open>operationId = 'getPetById'\<close>, in the document titled \<open>Pet Store\<close>, version \<open>1.0\<close>.\<close>

definition id_param :: Parameter where
  "id_param = \<lparr> p_name = ''id'', p_in = ''path'', p_required = Some True,
     p_schema = Some (typed ''string''), p_type = None, p_description = None \<rparr>"

definition getPetById :: ApiEndpoint where
  "getPetById = \<lparr> e_path = ''/pets/{id}'', e_method = ''GET'',
     e_operationId = Some ''getPetById'', e_summary = None, e_description = None,
     e_tags = None, e_parameters = [id_param], e_requestBody = None,
     e_responses = Some ''{}'', e_security = None \<rparr>"

definition pet_store :: ParsedApiSpec where
  "pet_store = \<lparr> info = Some \<lparr> i_title = Some ''Pet Store'', i_version = Some ''1.0'',
                                i_description = None \<rparr>,
     servers = None, endpoints = [getPetById], schemas = [], securitySchemes = [],
     globalSecurity = None \<rparr>"

text \<open>\<open>GET /pets\<close> with a header parameter \<open>X-Request-Id\<close>.\<close>

definition listPets :: ApiEndpoint where
  "listPets = \<lparr> e_path = ''/pets'', e_method = ''GET'',
     e_operationId = Some ''listPets'', e_summary = None, e_description = None,
     e_tags = None,
     e_parameters = [\<lparr> p_name = ''X-Request-Id'', p_in = ''header'', p_required = None,
                       p_schema = Some (typed ''string''), p_type = None, p_description = None \<rparr>],
     e_requestBody = None, e_responses = Some ''{}'', e_security = None \<rparr>"

definition header_store :: ParsedApiSpec where
  "header_store = \<lparr> info = None, servers = None, endpoints = [listPets], schemas = [],
     securitySchemes = [], globalSecurity = None \<rparr>"

section \<open>Documents and the normalizer (src/types/index.ts, src/core/parser.ts)\<close>

text \<open>An operation; its \<open>parameters\<close>, when there, is an array of parameter objects.\<close>

record Operation =
  o_operationId :: "string option"
  o_summary :: "string option"
  o_description :: "string option"
  o_tags :: "string list option"
  o_parameters :: "Parameter list option"
  o_requestBody :: "RequestBody option"
  o_responses :: "json option"
  o_security :: "SecurityRequirement list option"

record Components =
  c_schemas :: "(string \<times> schema) list option"
  c_securitySchemes :: "(string \<times> SecurityScheme option) list option"

text \<open>
  \<open>interface SwaggerSpec\<close>, with the Swagger 2.0 keys that the parser reads through a cast
  (\<open>definitions\<close>, \<open>securityDefinitions\<close>, \<open>host\<close>, \<open>basePath\<close>, \<open>schemes\<close>). \<open>info\<close> and \<open>paths\<close>
  are optional: the validator and the parser check for them.
\<close>

record SwaggerSpec =
  d_openapi :: "string option"
  d_swagger :: "string option"
  d_info :: "Info option"
  d_servers :: "Server list option"
  d_paths :: "(string \<times> (string \<times> Operation option) list option) list option"
  d_components :: "Components option"
  d_security :: "SecurityRequirement list option"
  d_definitions :: "(string \<times> schema) list option"
  d_securityDefinitions :: "(string \<times> SecurityScheme option) list option"
  d_host :: "string option"
  d_basePath :: "string option"
  d_schemes :: "string list option"

definition validMethods :: "string list" where
  "validMethods = [''get'', ''post'', ''put'', ''delete'', ''patch'', ''head'', ''options'']"

definition isValidHttpMethod :: "string \<Rightarrow> bool" where
  "isValidHttpMethod method = (toLowerCase method \<in> set validMethods)"

definition toEndpoint :: "string \<Rightarrow> string \<Rightarrow> Operation \<Rightarrow> ApiEndpoint" where
  "toEndpoint path method operation =
     \<lparr> e_path = path, e_method = toUpperCase method,
       e_operationId = keep_truthy (o_operationId operation),
       e_summary = keep_truthy (o_summary operation),
       e_description = keep_truthy (o_description operation),
       e_tags = o_tags operation,
       e_parameters = (case o_parameters operation of Some ps \<Rightarrow> ps | None \<Rightarrow> []),
       e_requestBody = o_requestBody operation,
       e_responses = o_responses operation,
       e_security = o_security operation \<rparr>"

text \<open>
  The two loops of \<open>convertToInternalFormat\<close>. \<open>None\<close> is an exception: reading
  \<open>operation.operationId\<close> of an operation that is \<open>null\<close>, under a key that is an HTTP
  method, and \<open>Object.entries(pathItem)\<close> of a path item that is \<open>null\<close>.
\<close>

fun pathItemEndpoints :: "string \<Rightarrow> (string \<times> Operation option) list \<Rightarrow> ApiEndpoint list option"
  where
  "pathItemEndpoints path [] = Some []"
| "pathItemEndpoints path ((method, operation) # rest) =
     (if isValidHttpMethod method then
        (case operation of
           None \<Rightarrow> None
         | Some operation \<Rightarrow>
             map_option (\<lambda>es. toEndpoint path method operation # es)
               (pathItemEndpoints path rest))
      else pathItemEndpoints path rest)"

fun pathsEndpoints ::
    "(string \<times> (string \<times> Operation option) list option) list \<Rightarrow> ApiEndpoint list option" where
  "pathsEndpoints [] = Some []"
| "pathsEndpoints ((path, pathItem) # rest) =
     (case pathItem of
        None \<Rightarrow> None
      | Some methods \<Rightarrow>
          (case pathItemEndpoints path methods of
             None \<Rightarrow> None
           | Some es \<Rightarrow> map_option (\<lambda>more. es @ more) (pathsEndpoints rest)))"

text \<open>
  \<open>convertToInternalFormat(spec)\<close>; \<open>None\<close> is an exception: one of the loops, or the one
  that \<open>Object.entries\<close> throws on a document without \<open>paths\<close>.
\<close>

definition convertToInternalFormat :: "SwaggerSpec \<Rightarrow> ParsedApiSpec option" where
  "convertToInternalFormat spec =
     (case d_paths spec of
        None \<Rightarrow> None
      | Some paths \<Rightarrow>
          (case pathsEndpoints paths of
             None \<Rightarrow> None
           | Some es \<Rightarrow>
          Some \<lparr> info = d_info spec,
                 servers = d_servers spec,
                 endpoints = es,
                 schemas =
                   (case (case d_components spec of Some c \<Rightarrow> c_schemas c | None \<Rightarrow> None) of
                      Some s \<Rightarrow> s
                    | None \<Rightarrow> (case d_definitions spec of Some s \<Rightarrow> s | None \<Rightarrow> [])),
                 securitySchemes =
                   (case (case d_components spec of
                            Some c \<Rightarrow> c_securitySchemes c | None \<Rightarrow> None) of
                      Some s \<Rightarrow> s
                    | None \<Rightarrow> (case d_securityDefinitions spec of Some s \<Rightarrow> s | None \<Rightarrow> [])),
                 globalSecurity = d_security spec \<rparr>))"

text \<open>\<open>getBaseUrl(spec)\<close> of the parser, with its fallback for Swagger 2.0.\<close>

definition parser_getBaseUrl :: "SwaggerSpec \<Rightarrow> string" where
  "parser_getBaseUrl spec =
     (case d_servers spec of
        Some (server # _) \<Rightarrow> srv_url server
      | _ \<Rightarrow>
          (if d_host spec \<noteq> None \<and> d_basePath spec \<noteq> None then
             (let protocol = (case d_schemes spec of
                                Some ss \<Rightarrow> if ''https'' \<in> set ss then ''https'' else ''http''
                              | None \<Rightarrow> ''http'')
              in protocol @ ''://'' @ the (d_host spec) @ str_or (d_basePath spec) [])
           else []))"

section \<open>Structural validator (src/core/validator.ts)\<close>

text \<open>The three lists that \<open>validate\<close> and its helpers push to.\<close>

record report =
  rep_errors :: "string list"
  rep_warnings :: "string list"
  rep_suggestions :: "string list"

record ValidationResult =
  isValid :: bool
  errors :: "string list"
  warnings :: "string list"
  suggestions :: "string list"

definition push_error :: "string \<Rightarrow> report \<Rightarrow> report" where
  "push_error msg r = r\<lparr> rep_errors := rep_errors r @ [msg] \<rparr>"

definition push_warning :: "string \<Rightarrow> report \<Rightarrow> report" where
  "push_warning msg r = r\<lparr> rep_warnings := rep_warnings r @ [msg] \<rparr>"

definition push_suggestion :: "string \<Rightarrow> report \<Rightarrow> report" where
  "push_suggestion msg r = r\<lparr> rep_suggestions := rep_suggestions r @ [msg] \<rparr>"

text \<open>
  What a helper of the validator comes to: it returns, with the lists as it leaves them,
  or it throws, with the message of the exception and the lists as they are at that
  moment (the \<open>catch\<close> of \<open>validate\<close> reads two of them). The messages are those of the
  \<open>TypeError\<close> that Node raises.
\<close>

datatype outcome = Done report | Thrown string report

text \<open>One statement after another: the second runs when the first has returned.\<close>

fun and_then :: "outcome \<Rightarrow> (report \<Rightarrow> outcome) \<Rightarrow> outcome" where
  "and_then (Done r) f = f r"
| "and_then (Thrown msg r) f = Thrown msg r"


text \<open>The statement \<open>if (c) { f }\<close> on the report: the checks of a function are nested in
  the order they run, the first one innermost.\<close>

definition if_then :: "bool \<Rightarrow> (report \<Rightarrow> report) \<Rightarrow> report \<Rightarrow> report" where
  "if_then c f r = (if c then f r else r)"

text \<open>A name between single quotes.\<close>

definition quoted :: "string \<Rightarrow> string" where
  "quoted s = [CHR 39] @ s @ [CHR 39]"

text \<open>
  \<open>validateParameters\<close>: the loop over the parameters, with the set \<open>paramNames\<close> of the keys
  seen so far.
\<close>

fun validateParameters :: "Parameter list \<Rightarrow> string \<Rightarrow> string list \<Rightarrow> report \<Rightarrow> report" where
  "validateParameters [] operationKey paramNames r = r"
| "validateParameters (param # rest) operationKey paramNames r =
     (if p_name param = [] then
        validateParameters rest operationKey paramNames
          (push_error (''Parameter missing name in '' @ operationKey) r)
      else
        (let paramKey = p_name param @ ''-'' @ p_in param
         in validateParameters rest operationKey (paramKey # paramNames)
              (if_then (p_in param = ''path'' \<and> p_required param \<noteq> Some True)
                 (push_error (''Path parameter '' @ quoted (p_name param)
                    @ '' must be required in '' @ operationKey))
              (if_then (paramKey \<in> set paramNames)
                 (push_error (''Duplicate parameter '' @ quoted (p_name param) @ '' in ''
                    @ quoted (p_in param) @ '' for '' @ operationKey))
              (if_then (p_schema param = None \<and> \<not> truthy (p_type param))
                 (push_error (''Parameter '' @ quoted (p_name param)
                    @ '' missing schema/type in '' @ operationKey))
              (if_then (p_in param = [])
                 (push_error (''Parameter '' @ quoted (p_name param) @ '' missing ''
                    @ quoted ''in'' @ '' field in '' @ operationKey))
               r))))))"

definition validateOperation :: "string \<Rightarrow> string \<Rightarrow> Operation \<Rightarrow> report \<Rightarrow> report" where
  "validateOperation path method operation r =
     (let operationKey = toUpperCase method @ '' '' @ path
      in if_then (o_tags operation = None \<or> o_tags operation = Some [])
           (push_suggestion (''Consider adding tags for '' @ operationKey
              @ '' for better organization''))
        (if_then (toLowerCase method \<in> set [''post'', ''put'', ''patch'']
                 \<and> o_requestBody operation = None)
           (push_warning (operationKey @ '' might need a request body''))
        (if_then (o_parameters operation \<noteq> None)
           (validateParameters (the (o_parameters operation)) operationKey [])
        (if_then (\<not> truthy (o_summary operation) \<and> \<not> truthy (o_description operation))
           (push_warning (''Missing summary and description for '' @ operationKey))
        (if_then (\<not> truthy (o_operationId operation))
           (push_suggestion (''Consider adding operationId for '' @ operationKey))
        (if_then (o_responses operation = None)
           (push_error (''Missing responses for '' @ operationKey))
         r))))))"

text \<open>
  The inner loop of \<open>validatePaths\<close>, over the entries of a path item. Under a key that is
  an HTTP method \<open>validateOperation\<close> is called, and its first statement reads
  \<open>operation.responses\<close>: that throws when the operation is \<open>null\<close>.
\<close>

fun validateMethods :: "string \<Rightarrow> (string \<times> Operation option) list \<Rightarrow> report \<Rightarrow> outcome" where
  "validateMethods path [] r = Done r"
| "validateMethods path ((method, operation) # rest) r =
     (if toLowerCase method \<in> set validMethods then
        (case operation of
           None \<Rightarrow>
             Thrown (''Cannot read properties of null (reading '' @ quoted ''responses'' @ '')'') r
         | Some operation \<Rightarrow>
             validateMethods path rest (validateOperation path method operation r))
      else validateMethods path rest r)"

text \<open>
  \<open>validatePaths\<close>: the check of the path, then \<open>Object.entries(pathItem)\<close>, which throws when
  the path item is \<open>null\<close>.
\<close>

fun validatePaths ::
    "(string \<times> (string \<times> Operation option) list option) list \<Rightarrow> report \<Rightarrow> outcome" where
  "validatePaths [] r = Done r"
| "validatePaths ((path, pathItem) # rest) r =
     (case pathItem of
        None \<Rightarrow>
          Thrown ''Cannot convert undefined or null to object''
            (if_then (\<not> startsWith path ''/'')
               (push_error (''Path must start with '' @ quoted ''/'' @ '': '' @ path)) r)
      | Some methods \<Rightarrow>
          and_then
            (validateMethods path methods
               (if_then (\<not> startsWith path ''/'')
                  (push_error (''Path must start with '' @ quoted ''/'' @ '': '' @ path)) r))
            (validatePaths rest))"

text \<open>The \<open>switch\<close> of \<open>validateSecuritySchemes\<close> on a scheme that has a type.\<close>

definition validateScheme :: "string \<Rightarrow> SecurityScheme \<Rightarrow> report \<Rightarrow> report" where
  "validateScheme name scheme r =
     (if ss_type scheme = ''apiKey'' then
        if_then (\<not> truthy (ss_name scheme) \<or> \<not> truthy (ss_in scheme))
          (push_error (''API key security scheme '' @ quoted name
             @ '' missing name or in field'')) r
      else if ss_type scheme = ''http'' then
        if_then (\<not> truthy (ss_scheme scheme))
          (push_error (''HTTP security scheme '' @ quoted name @ '' missing scheme field'')) r
      else if ss_type scheme = ''oauth2'' then
        if_then (ss_flows scheme = None)
          (push_error (''OAuth2 security scheme '' @ quoted name @ '' missing flows'')) r
      else if ss_type scheme = ''openIdConnect'' then
        if_then (\<not> truthy (ss_openIdConnectUrl scheme))
          (push_error (''OpenID Connect security scheme '' @ quoted name
             @ '' missing openIdConnectUrl'')) r
      else
        push_warning (''Unknown security scheme type '' @ quoted (ss_type scheme)
          @ '' for '' @ quoted name) r)"

text \<open>\<open>validateSecuritySchemes\<close>; reading \<open>scheme.type\<close> throws when the scheme is \<open>null\<close>.\<close>

fun validateSecuritySchemes :: "(string \<times> SecurityScheme option) list \<Rightarrow> report \<Rightarrow> outcome"
  where
  "validateSecuritySchemes [] r = Done r"
| "validateSecuritySchemes ((name, scheme) # rest) r =
     (case scheme of
        None \<Rightarrow> Thrown (''Cannot read properties of null (reading '' @ quoted ''type'' @ '')'') r
      | Some scheme \<Rightarrow>
          validateSecuritySchemes rest
            (if ss_type scheme = []
             then push_error (''Security scheme '' @ quoted name @ '' missing type'') r
             else validateScheme name scheme r))"

text \<open>The blocks of \<open>validate\<close>, named after their comments in the source.\<close>

definition checkRequiredFields :: "SwaggerSpec \<Rightarrow> report \<Rightarrow> report" where
  "checkRequiredFields spec r =
     (case d_info spec of
        None \<Rightarrow> push_error ''Missing required field: info'' r
      | Some i \<Rightarrow>
          if_then (\<not> truthy (i_version i)) (push_error ''Missing required field: info.version'')
         (if_then (\<not> truthy (i_title i)) (push_error ''Missing required field: info.title'') r))"

definition checkPaths :: "SwaggerSpec \<Rightarrow> report \<Rightarrow> outcome" where
  "checkPaths spec r =
     (case d_paths spec of
        None \<Rightarrow> Done (push_error ''No paths defined in specification'' r)
      | Some [] \<Rightarrow> Done (push_error ''No paths defined in specification'' r)
      | Some paths \<Rightarrow> validatePaths paths r)"

definition checkVersion :: "SwaggerSpec \<Rightarrow> report \<Rightarrow> report" where
  "checkVersion spec r =
     if_then (\<not> truthy (d_openapi spec) \<and> \<not> truthy (d_swagger spec))
       (push_error ''Missing OpenAPI or Swagger version field'') r"

definition checkServers :: "SwaggerSpec \<Rightarrow> report \<Rightarrow> report" where
  "checkServers spec r =
     if_then (truthy (d_openapi spec) \<and> (d_servers spec = None \<or> d_servers spec = Some []))
       (push_warning ''No servers defined - consider adding server URLs'') r"

definition checkSecuritySchemes :: "SwaggerSpec \<Rightarrow> report \<Rightarrow> outcome" where
  "checkSecuritySchemes spec r =
     (case d_components spec of
        None \<Rightarrow> Done r
      | Some c \<Rightarrow>
          (case c_securitySchemes c of
             None \<Rightarrow> Done r
           | Some ss \<Rightarrow> validateSecuritySchemes ss r))"

text \<open>The statements of the \<open>try\<close> block of \<open>validate\<close> before its \<open>return\<close>, on the three
  empty lists.\<close>

definition try_block :: "SwaggerSpec \<Rightarrow> outcome" where
  "try_block spec =
     and_then
       (and_then
          (checkPaths spec
             (checkRequiredFields spec
                \<lparr> rep_errors = [], rep_warnings = [], rep_suggestions = [] \<rparr>))
          (\<lambda>r. Done (checkServers spec (checkVersion spec r))))
       (checkSecuritySchemes spec)"

text \<open>
  \<open>validate(spec)\<close>: the \<open>return\<close> of the \<open>try\<close> block, or that of the \<open>catch\<close>, which drops
  the errors found so far for the message of the exception.
\<close>

definition validate :: "SwaggerSpec \<Rightarrow> ValidationResult" where
  "validate spec =
     (case try_block spec of
        Done r \<Rightarrow>
          \<lparr> isValid = (rep_errors r = []), errors = rep_errors r,
            warnings = rep_warnings r, suggestions = rep_suggestions r \<rparr>
      | Thrown msg r \<Rightarrow>
          \<lparr> isValid = False, errors = [''Validation failed: '' @ msg],
            warnings = rep_warnings r, suggestions = rep_suggestions r \<rparr>)"






section \<open>Example documents for the normalizer and the validator\<close>

definition no_operation :: Operation where
  "no_operation = \<lparr> o_operationId = None, o_summary = None, o_description = None,
     o_tags = None, o_parameters = None, o_requestBody = None, o_responses = Some ''{}'',
     o_security = None \<rparr>"

definition empty_doc :: SwaggerSpec where
  "empty_doc = \<lparr> d_openapi = None, d_swagger = None, d_info = None, d_servers = None,
     d_paths = None, d_components = None, d_security = None, d_definitions = None,
     d_securityDefinitions = None, d_host = None, d_basePath = None, d_schemes = None \<rparr>"

text \<open>The Pet Store document of the specification's example.\<close>

definition pet_store_doc :: SwaggerSpec where
  "pet_store_doc = empty_doc
     \<lparr> d_openapi := Some ''3.0.0'',
       d_info := Some \<lparr> i_title = Some ''Pet Store'', i_version = Some ''1.0'',
                        i_description = None \<rparr>,
       d_paths := Some [(''/pets/{id}'',
          Some [(''get'', Some (no_operation\<lparr> o_operationId := Some ''getPetById'',
                                   o_parameters := Some [id_param] \<rparr>))])] \<rparr>"

text \<open>A Swagger 2.0 document: \<open>host\<close>, \<open>basePath\<close> and \<open>schemes\<close>, no \<open>servers\<close>.\<close>

definition swagger2_doc :: SwaggerSpec where
  "swagger2_doc = empty_doc
     \<lparr> d_swagger := Some ''2.0'',
       d_info := Some \<lparr> i_title = Some ''Pet Store'', i_version = Some ''1.0'',
                        i_description = None \<rparr>,
       d_host := Some ''api.example.com'', d_basePath := Some ''/v1'',
       d_schemes := Some [''https''],
       d_paths := Some [(''/pets/{id}'',
          Some [(''get'', Some (no_operation\<lparr> o_operationId := Some ''getPetById'',
                                   o_parameters := Some [id_param] \<rparr>))])] \<rparr>"

text \<open>The Pet Store document without \<open>info.version\<close>.\<close>

definition no_version_doc :: SwaggerSpec where
  "no_version_doc = pet_store_doc
     \<lparr> d_info := Some \<lparr> i_title = Some ''Pet Store'', i_version = None,
                        i_description = None \<rparr> \<rparr>"


text \<open>\<open>{type: 'object', properties: {owner: {type: 'object', properties: {name: {type:
  'string'}}}}, required: ['owner']}\<close>: \<open>owner\<close> is required, \<open>name\<close> is not.\<close>

definition required_owner_body :: schema where
  "required_owner_body =
     object_schema [(''owner'', object_schema [(''name'', typed ''string'')] None)]
       (Some [''owner''])"

text \<open>The reconstruction metadata of a flattened property, as far as it always holds.\<close>

definition flattened_under :: "string \<Rightarrow> FlatProperty \<Rightarrow> bool" where
  "flattened_under parentName p =
     (isFlattened p \<and> parentObject p = Some parentName
      \<and> (case originalPath p of
            None \<Rightarrow> False
          | Some path \<Rightarrow> prefix (parentName @ ''.'') path))"

section \<open>Example compositions with references\<close>

text \<open>
  \<open>{ allOf: [{$ref: '#/components/schemas/Owner'},
  {$ref: '#/components/schemas/Missing', properties: {name: {type: 'integer'},
  z: {type: 'string'}}, required: ['z']}] }\<close> over the registry of \<open>pet_spec\<close>: the first
  member's \<open>$ref\<close> names the entry \<open>Owner\<close>, the second member's names no entry.
\<close>

definition allOf_refs_members :: "schema list" where
  "allOf_refs_members =
     [reference ''#/components/schemas/Owner'',
      Schema None (Some ''#/components/schemas/Missing'') None no_facets [] None
        (Some [(''name'', typed ''integer''), (''z'', typed ''string'')]) (Some [''z''])
        None None None]"

definition allOf_refs :: schema where
  "allOf_refs = Schema None None None no_facets [] None None None
     (Some allOf_refs_members) None None"

text \<open>\<open>{ allOf: [{$ref: '#/components/schemas/constructor',
  properties: {z: {type: 'string'}}}] }\<close>\<close>

definition allOf_constructor_members :: "schema list" where
  "allOf_constructor_members =
     [Schema None (Some ''#/components/schemas/constructor'') None no_facets [] None
        (Some [(''z'', typed ''string'')]) None None None None]"

definition allOf_constructor :: schema where
  "allOf_constructor = Schema None None None no_facets [] None None None
     (Some allOf_constructor_members) None None"

text \<open>\<open>{ allOf: [{properties: {__proto__: {type: 'string'}, a: {type: 'string'}}}] }\<close>, as
  \<open>JSON.parse\<close> gives it: \<open>__proto__\<close> is a key of the member's properties.\<close>

definition allOf_proto_members :: "schema list" where
  "allOf_proto_members =
     [with_properties [(''__proto__'', typed ''string''), (''a'', typed ''string'')]]"

definition allOf_proto :: schema where
  "allOf_proto = Schema None None None no_facets [] None None None
     (Some allOf_proto_members) None None"

section \<open>Properties of the resolver\<close>

lemma replace_first_prefix:
  "prefix p s \<Longrightarrow> p \<noteq> [] \<Longrightarrow> replace_first p [] s = drop (length p) s"
  by (cases s) auto

lemma resolve_ref_name:
  "resolveSchemaReference ref spec =
     (case ref_name ref of None \<Rightarrow> None | Some k \<Rightarrow> registry_get (schemas spec) k)"
  unfolding resolveSchemaReference_def startsWith_def Let_def ref_name_def
  using replace_first_prefix [of "''#/components/schemas/''" ref]
        replace_first_prefix [of "''#/definitions/''" ref]
  by (simp del: replace_first.simps)

text \<open>
  Where reference resolution does what its return type \<open>Schema | null\<close> says: a reference
  that names a key of the registry gives that entry, and a reference with no standard
  prefix, or one whose name is neither a key of the registry nor inherited, gives \<open>null\<close>.
\<close>

lemma resolves_registry_entry:
  "ref_name ref = Some name \<Longrightarrow> map_of (schemas spec) name = Some entry \<Longrightarrow>
   resolveSchemaReference ref spec = Some entry"
  by (simp add: resolve_ref_name registry_get_def)

lemma unresolved_is_absent:
  "ref_name ref = None \<or>
   (\<exists>name. ref_name ref = Some name \<and> map_of (schemas spec) name = None
      \<and> name \<notin> set object_prototype_keys) \<Longrightarrow>
   resolveSchemaReference ref spec = None"
  by (auto simp: resolve_ref_name registry_get_def)

text \<open>
  C3 at the reference \<open>#/components/schemas/constructor\<close> and the empty registry: the name
  \<open>constructor\<close> is not a key of the registry, and reference resolution does not return
  the absent result but the value that the registry object inherits under that name.
\<close>

theorem inherited_reference_not_absent:
  "map_of (schemas (registry_spec [])) ''constructor'' = None
   \<and> resolveSchemaReference ''#/components/schemas/constructor'' (registry_spec [])
       = Some inherited_value
   \<and> resolveSchemaReference ''#/components/schemas/constructor'' (registry_spec []) \<noteq> None"
  by code_simp

text \<open>
  C8: on a schema with no \<open>$ref\<close>, \<open>allOf\<close>, \<open>oneOf\<close> and \<open>anyOf\<close>, composition resolution
  returns the schema unchanged.
\<close>

theorem resolveSchemaComposition_identity:
  assumes "s_ref S = None" and "s_allOf S = None" and "s_oneOf S = None" and "s_anyOf S = None"
  shows "resolveSchemaComposition S spec = S"
  using assms by (simp add: resolveSchemaComposition_def)

theorem resolveSchemaComposition_identity_witness:
  "s_ref (typed ''string'') = None \<and> s_allOf (typed ''string'') = None
   \<and> s_oneOf (typed ''string'') = None \<and> s_anyOf (typed ''string'') = None
   \<and> resolveSchemaComposition (typed ''string'') (registry_spec []) = typed ''string''"
proof -
  have h: "s_ref (typed ''string'') = None" "s_allOf (typed ''string'') = None"
    "s_oneOf (typed ''string'') = None" "s_anyOf (typed ''string'') = None"
    by (simp_all add: typed_def)
  show ?thesis
    using h resolveSchemaComposition_identity [OF h, of "registry_spec []"] by simp
qed

subsection \<open>allOf\<close>

lemma map_of_obj_assign:
  "distinct (map fst src) \<Longrightarrow> ''__proto__'' \<notin> set (map fst src) \<Longrightarrow>
   map_of (obj_assign tgt src) = map_of tgt ++ map_of src"
proof (induction src arbitrary: tgt)
  case Nil
  then show ?case by (simp add: obj_assign_def)
next
  case (Cons p src)
  obtain k v where p: "p = (k, v)" by (cases p)
  from Cons.prems p have k: "map_of src k = None" and d: "distinct (map fst src)"
    and n: "k \<noteq> ''__proto__''" and m: "''__proto__'' \<notin> set (map fst src)"
    by (auto simp: map_of_eq_None_iff)
  have "map_of (obj_assign tgt (p # src)) = map_of (obj_assign (AList.update k v tgt) src)"
    using n by (simp add: obj_assign_def obj_set_def p)
  also have "\<dots> = (map_of tgt)(k \<mapsto> v) ++ map_of src"
    by (simp only: Cons.IH [OF d m] AList.update_conv')
  also have "\<dots> = map_of tgt ++ map_of (p # src)"
    using k by (auto simp: p map_add_def fun_eq_iff split: option.splits)
  finally show ?case .
qed

lemma mergeMembers_props:
  "list_all (\<lambda>sub. object_keys_ok (resolveMember spec sub)) ms \<Longrightarrow>
   map_of (fst (mergeMembers spec ms (props, req, ty))) =
     foldl (\<lambda>m sub. m ++ map_of (props_of (resolveMember spec sub))) (map_of props) ms"
proof (induction ms arbitrary: props req ty)
  case Nil
  then show ?case by simp
next
  case (Cons sub ms)
  then show ?case
    by (cases "s_properties (resolveMember spec sub)")
       (simp_all add: Let_def props_of_def object_keys_ok_def map_of_obj_assign)
qed

lemma mergeMembers_required:
  "fst (snd (mergeMembers spec ms (props, req, ty))) =
     req @ concat (map (\<lambda>sub. required_of (resolveMember spec sub)) ms)"
  by (induction ms arbitrary: props req ty)
     (simp_all add: Let_def required_of_def split: option.splits)

lemma mergeMembers_type:
  "snd (snd (mergeMembers spec ms (props, req, ty))) =
     (if truthy ty then ty
      else case filter (\<lambda>sub. truthy (s_type (resolveMember spec sub))) ms of
             [] \<Rightarrow> ty
           | sub # _ \<Rightarrow> s_type (resolveMember spec sub))"
  by (induction ms arbitrary: props req ty) (simp_all add: Let_def)

text \<open>
  The code's member, \<open>resolveSchemaReference(subSchema.$ref, spec) || subSchema\<close>, is the
  member the specification speaks of, unless the \<open>$ref\<close> names an inherited property.
\<close>

lemma resolveMember_member_schema:
  "\<not> names_inherited spec sub \<Longrightarrow> resolveMember spec sub = member_schema spec sub"
  by (auto simp: resolveMember_def member_schema_def names_inherited_def resolve_ref_name
      registry_get_def truthy_def ref_name_def split: option.splits if_splits)

text \<open>
  C4, as the code has it: when \<open>allOf\<close> is present, \<open>oneOf\<close> is absent or empty, \<open>anyOf\<close>
  is absent, no member's \<open>$ref\<close> names an inherited property and no member has a
  property named \<open>__proto__\<close>, the resolved schema's properties are the union of the
  members' properties (each member's \<open>$ref\<close> resolved first to the registry entry it
  names, a member whose \<open>$ref\<close> names no entry taken as it is, a later member overriding
  an earlier one), its required list is the members' required lists one after the other,
  and its type is the outer schema's when that declares one, else the type of the first
  member that declares one.
\<close>

theorem allOf_merge:
  assumes "s_allOf s = Some members"
    and "s_oneOf s = None \<or> s_oneOf s = Some []"
    and "s_anyOf s = None"
    and "list_all (\<lambda>sub. object_keys_ok (member_schema spec sub)) members"
    and "list_all (\<lambda>sub. \<not> names_inherited spec sub) members"
  shows "map_of (props_of (resolveSchemaComposition s spec)) = allOf_properties spec members
       \<and> s_properties (resolveSchemaComposition s spec) \<noteq> None
       \<and> s_required (resolveSchemaComposition s spec) = Some (allOf_required spec members)
       \<and> s_type (resolveSchemaComposition s spec) =
           (if truthy (s_type s) then s_type s
            else if list_ex (\<lambda>sub. truthy (s_type (member_schema spec sub))) members
              then allOf_type spec members
            else s_type s)"
proof -
  have eq: "resolveMember spec sub = member_schema spec sub" if "sub \<in> set members" for sub
    using assms(5) that by (simp add: list_all_iff resolveMember_member_schema)
  have ok: "list_all (\<lambda>sub. object_keys_ok (resolveMember spec sub)) members"
    using assms(4) eq by (simp add: list_all_iff)
  have fp: "foldl (\<lambda>m sub. m ++ map_of (props_of (resolveMember spec sub))) Map.empty members
      = allOf_properties spec members"
    unfolding allOf_properties_def by (rule foldl_cong) (simp_all add: eq)
  have fr: "concat (map (\<lambda>sub. required_of (resolveMember spec sub)) members)
      = allOf_required spec members"
    unfolding allOf_required_def by (simp add: eq cong: map_cong)
  have ff: "filter (\<lambda>sub. truthy (s_type (resolveMember spec sub))) members
      = filter (\<lambda>sub. truthy (s_type (member_schema spec sub))) members"
    by (simp add: eq cong: filter_cong)
  have fh: "s_type (resolveMember spec sub) = s_type (member_schema spec sub)"
    if "filter (\<lambda>sub. truthy (s_type (member_schema spec sub))) members = sub # rest"
    for sub rest
  proof -
    from that have "sub \<in> set (filter (\<lambda>sub. truthy (s_type (member_schema spec sub))) members)"
      by simp
    then show ?thesis by (simp add: eq)
  qed
  obtain props req ty where m: "mergeMembers spec members ([], [], s_type s) = (props, req, ty)"
    by (cases "mergeMembers spec members ([], [], s_type s)")
  have r: "resolveSchemaComposition s spec =
      Schema ty (s_ref s) (s_description s) (s_facets s) (s_extras s) (s_items s)
        (Some props) (Some req) (s_allOf s) (s_oneOf s) (s_anyOf s)"
    using assms(1-3) m by (auto simp: resolveSchemaComposition_def mergeInto_def)
  have p: "map_of props = allOf_properties spec members"
    using mergeMembers_props [OF ok, of "[]" "[]" "s_type s"] m
    by (simp add: fp)
  have q: "req = allOf_required spec members"
    using mergeMembers_required [of spec members "[]" "[]" "s_type s"] m
    by (simp add: fr)
  have t: "ty = (if truthy (s_type s) then s_type s
            else if list_ex (\<lambda>sub. truthy (s_type (member_schema spec sub))) members
              then allOf_type spec members
            else s_type s)"
    using mergeMembers_type [of spec members "[]" "[]" "s_type s"] m fh
    by (auto simp: ff allOf_type_def list_ex_iff filter_empty_conv split: list.splits)
  show ?thesis using p q t by (simp add: r props_of_def)
qed

lemma allOf_refs_resolved:
  "resolveSchemaComposition allOf_refs pet_spec =
     Schema (Some ''object'') None None no_facets [] None
       (Some [(''name'', typed ''integer''), (''z'', typed ''string'')]) (Some [''name'', ''z''])
       (Some allOf_refs_members) None None"
  by code_simp

lemma allOf_refs_member_schemas:
  "map (member_schema pet_spec) allOf_refs_members =
     [owner_schema,
      Schema None (Some ''#/components/schemas/Missing'') None no_facets [] None
        (Some [(''name'', typed ''integer''), (''z'', typed ''string'')]) (Some [''z''])
        None None None]"
  by code_simp

theorem allOf_merge_witness:
  "s_allOf allOf_refs = Some allOf_refs_members
   \<and> s_oneOf allOf_refs = None \<and> s_anyOf allOf_refs = None
   \<and> list_all (\<lambda>sub. object_keys_ok (member_schema pet_spec sub)) allOf_refs_members
   \<and> list_all (\<lambda>sub. \<not> names_inherited pet_spec sub) allOf_refs_members
   \<and> map_of (props_of (resolveSchemaComposition allOf_refs pet_spec))
       = allOf_properties pet_spec allOf_refs_members
   \<and> s_properties (resolveSchemaComposition allOf_refs pet_spec)
       = Some [(''name'', typed ''integer''), (''z'', typed ''string'')]
   \<and> s_required (resolveSchemaComposition allOf_refs pet_spec) = Some [''name'', ''z'']
   \<and> s_type (resolveSchemaComposition allOf_refs pet_spec) = Some ''object''"
proof -
  have h1: "s_allOf allOf_refs = Some allOf_refs_members"
    and h2: "s_oneOf allOf_refs = None \<or> s_oneOf allOf_refs = Some []"
    and h3: "s_anyOf allOf_refs = None"
    and h2': "s_oneOf allOf_refs = None"
    by (simp_all add: allOf_refs_def)
  have h4: "list_all (\<lambda>sub. object_keys_ok (member_schema pet_spec sub)) allOf_refs_members"
    by code_simp
  have h5: "list_all (\<lambda>sub. \<not> names_inherited pet_spec sub) allOf_refs_members"
    by code_simp
  have p: "map_of (props_of (resolveSchemaComposition allOf_refs pet_spec))
       = allOf_properties pet_spec allOf_refs_members"
    using allOf_merge [OF h1 h2 h3 h4 h5] by (rule conjunct1)
  have q: "s_properties (resolveSchemaComposition allOf_refs pet_spec)
       = Some [(''name'', typed ''integer''), (''z'', typed ''string'')]"
    and r: "s_required (resolveSchemaComposition allOf_refs pet_spec) = Some [''name'', ''z'']"
    and t: "s_type (resolveSchemaComposition allOf_refs pet_spec) = Some ''object''"
    by (simp_all add: allOf_refs_resolved)
  show ?thesis
    by (intro conjI h1 h2' h3 h4 h5 p q r t)
qed

text \<open>
  A member whose \<open>$ref\<close> names the inherited \<open>constructor\<close>: the code takes the inherited
  value for the member and merges nothing, where the member itself declares \<open>z\<close>.
\<close>

lemma allOf_inherited_member:
  "list_ex (names_inherited (registry_spec [])) allOf_constructor_members
   \<and> s_properties (resolveSchemaComposition allOf_constructor (registry_spec [])) = Some []
   \<and> map (\<lambda>sub. map fst (props_of (member_schema (registry_spec []) sub)))
         allOf_constructor_members = [[''z'']]"
  by code_simp

text \<open>A member with a property named \<open>__proto__\<close>: \<open>Object.assign\<close> does not copy it.\<close>

lemma allOf_proto_member:
  "map (\<lambda>sub. map fst (props_of (member_schema (registry_spec []) sub))) allOf_proto_members
     = [[''__proto__'', ''a'']]
   \<and> map fst (props_of (resolveSchemaComposition allOf_proto (registry_spec []))) = [''a'']"
  by code_simp

text \<open>
  The claim fails when \<open>anyOf\<close> is present too: the \<open>anyOf\<close> block starts from an empty
  properties object, so the property \<open>a\<close> of the \<open>allOf\<close> member is gone.
\<close>

theorem allOf_merge_counterexample:
  "s_allOf allOf_and_anyOf = Some [with_properties [(''a'', typed ''string'')]]
   \<and> allOf_properties (registry_spec []) [with_properties [(''a'', typed ''string'')]] ''a''
       = Some (typed ''string'')
   \<and> s_properties (resolveSchemaComposition allOf_and_anyOf (registry_spec []))
       = Some [(''b'', typed ''string'')]"
  by (simp add: allOf_and_anyOf_def allOf_properties_def resolveSchemaComposition_def
      mergeInto_def Let_def resolveMember_def truthy_def obj_assign_def obj_set_def
      with_properties_def props_of_def member_schema_def)

section \<open>Properties of the flattening engine\<close>

lemma required_leaf_Nil: "\<not> required_leaf spec parentName pfx req [] x"
  by (auto elim: required_leaf.cases)

lemma required_leaf_mono:
  assumes "required_leaf spec parentName pfx req props x" and "set props \<subseteq> set props'"
  shows "required_leaf spec parentName pfx req props' x"
  using assms by (cases rule: required_leaf.cases) (auto intro: required_leaf.intros)

lemma required_leaf_Cons:
  "required_leaf spec parentName pfx req ((p, ps) # rest) x \<longleftrightarrow>
     (if isNestedObject (resolveMember spec ps)
      then required_leaf spec parentName (flattenedName parentName pfx p)
             (required_of (resolveMember spec ps)) (props_of (resolveMember spec ps)) x
      else p \<in> set req \<and> x = flattenedName parentName pfx p)
     \<or> required_leaf spec parentName pfx req rest x"
  (is "?l \<longleftrightarrow> ?r")
proof
  assume ?l
  then show ?r
    by (cases rule: required_leaf.cases) (auto intro: required_leaf.intros)
next
  assume r: ?r
  have mem: "(p, ps) \<in> set ((p, ps) # rest)" by simp
  show ?l
  proof (cases "required_leaf spec parentName pfx req rest x")
    case True
    then show ?thesis by (rule required_leaf_mono) auto
  next
    case False
    show ?thesis
    proof (cases "isNestedObject (resolveMember spec ps)")
      case True
      with r False show ?thesis
        using required_leaf.below [OF mem True] by simp
    next
      case n: False
      with r False show ?thesis
        using required_leaf.here [OF mem n] by auto
    qed
  qed
qed

lemma flatten_required_aux:
  "(\<forall>res. flattenNestedObject n spec schema parentName pfx = Some res \<longrightarrow>
      set (required res) =
        {x. required_leaf spec parentName pfx (required_of schema) (props_of schema) x})
   &&&
   (\<forall>res. flattenLoop n spec schema parentName pfx rest acc = Some res \<longrightarrow>
      set (required res) =
        set (required acc) \<union> {x. required_leaf spec parentName pfx (required_of schema) rest x})"
proof (induction n spec schema parentName pfx and n spec schema parentName pfx rest acc
    rule: flattenNestedObject_flattenLoop.induct)
  case (1 spec schema parentName pfx)
  show ?case by simp
next
  case (2 n spec schema parentName pfx)
  show ?case
  proof (cases "s_properties schema")
    case None
    then show ?thesis
      by (simp add: props_of_def empty_extracted_def required_leaf_Nil)
  next
    case (Some props)
    with "2.IH" [OF Some] show ?thesis
      by (simp add: props_of_def empty_extracted_def)
  qed
next
  case (3 n spec schema parentName pfx acc)
  show ?case by (simp add: required_leaf_Nil)
next
  case (4 n spec schema parentName pfx propName propSchema rest acc)
  let ?name = "flattenedName parentName pfx propName"
  let ?r = "resolveMember spec propSchema"
  show ?case
  proof (cases "isNestedObject ?r")
    case True
    show ?thesis
    proof (intro allI impI)
      fix res
      assume a: "flattenLoop n spec schema parentName pfx ((propName, propSchema) # rest) acc
                 = Some res"
      then obtain nested where
        n: "flattenNestedObject n spec ?r parentName ?name = Some nested" and
        l: "flattenLoop n spec schema parentName pfx rest (absorb acc nested) = Some res"
        using True by (auto simp: Let_def split: option.splits)
      from "4.IH"(1) [OF refl refl True] n
      have 1: "set (required nested) =
          {x. required_leaf spec parentName ?name (required_of ?r) (props_of ?r) x}"
        by blast
      from "4.IH"(2) [OF refl refl True n] l
      have 2: "set (required res) = set (required (absorb acc nested)) \<union>
          {x. required_leaf spec parentName pfx (required_of schema) rest x}"
        by blast
      show "set (required res) = set (required acc) \<union>
          {x. required_leaf spec parentName pfx (required_of schema)
                ((propName, propSchema) # rest) x}"
        using 1 2 True by (auto simp: required_leaf_Cons absorb_def)
    qed
  next
    case False
    show ?thesis
    proof (intro allI impI)
      fix res
      assume a: "flattenLoop n spec schema parentName pfx ((propName, propSchema) # rest) acc
                 = Some res"
      let ?acc = "\<lparr> properties = obj_set ?name
                       ((unmarked (convertSchemaToZod (Some ?r) (s_description ?r)))
                          \<lparr> originalPath := Some (originalPathOf parentName pfx propName),
                            parentObject := Some parentName,
                            isFlattened := True \<rparr>) (properties acc),
                     required = (case s_required schema of
                                   Some rs \<Rightarrow> if propName \<in> set rs
                                              then required acc @ [?name] else required acc
                                 | None \<Rightarrow> required acc) \<rparr>"
      from a False have l: "flattenLoop n spec schema parentName pfx rest ?acc = Some res"
        by (simp add: Let_def)
      from "4.IH"(3) [OF refl refl False refl] l
      have "set (required res) = set (required ?acc) \<union>
          {x. required_leaf spec parentName pfx (required_of schema) rest x}"
        by blast
      then show "set (required res) = set (required acc) \<union>
          {x. required_leaf spec parentName pfx (required_of schema)
                ((propName, propSchema) # rest) x}"
        using False by (auto simp: required_leaf_Cons required_of_def split: option.splits)
    qed
  qed
qed

text \<open>
  C1, as the code has it: the required list that flattening a nested object returns holds
  exactly the flattened names of the leaf fields that the required list of their immediate
  parent names; whether the objects above the leaf are required is not looked at.
\<close>

theorem flatten_required_immediate:
  assumes "flattenNestedObject n spec schema parentName pfx = Some res"
  shows "x \<in> set (required res) \<longleftrightarrow>
         required_leaf spec parentName pfx (required_of schema) (props_of schema) x"
  using flatten_required_aux(1) [of n spec schema parentName pfx] assms by auto

lemma flatten_owner:
  "flattenNestedObject 1 (registry_spec []) owner_schema ''owner'' [] =
     Some \<lparr> properties =
              [(''owner_name'',
                (unmarked (Zod ''string'' ''Parameter value'' no_facets None))
                  \<lparr> originalPath := Some ''owner.name'', parentObject := Some ''owner'',
                    isFlattened := True \<rparr>)],
            required = [''owner_name''] \<rparr>"
  by code_simp

theorem flatten_required_immediate_witness:
  "flattenNestedObject 1 (registry_spec []) owner_schema ''owner'' [] \<noteq> None
   \<and> required_leaf (registry_spec []) ''owner'' [] (required_of owner_schema)
       (props_of owner_schema) ''owner_name''"
proof -
  have a: "flattenNestedObject 1 (registry_spec []) owner_schema ''owner'' [] \<noteq> None"
    by (simp only: flatten_owner) simp
  have "''owner_name'' \<in> set [''owner_name'']" by simp
  then have b: "required_leaf (registry_spec []) ''owner'' [] (required_of owner_schema)
       (props_of owner_schema) ''owner_name''"
    using flatten_required_immediate [OF flatten_owner, of "''owner_name''"] by simp
  show ?thesis using a b by (rule conjI)
qed

text \<open>
  The claim fails as stated: \<open>owner\<close> is not required in the body schema, yet the
  flattened output requires \<open>owner_name\<close>.
\<close>

theorem required_transitive_counterexample:
  "''owner'' \<notin> set (required_of owner_body)
   \<and> extractSchemaProperties 2 (registry_spec []) owner_body =
       Some \<lparr> properties =
                [(''owner_name'',
                  (unmarked (Zod ''string'' ''Parameter value'' no_facets None))
                    \<lparr> originalPath := Some ''owner.name'', parentObject := Some ''owner'',
                      isFlattened := True \<rparr>)],
              required = [''owner_name''] \<rparr>"
  by code_simp

text \<open>
  C5 at \<open>address_body\<close>: the leaf \<open>owner.home_address.street\<close> is flattened with
  \<open>parentObject = 'owner'\<close>, but its \<open>originalPath\<close> is \<open>owner.home.address.street\<close>: the
  underscore inside the field name \<open>home_address\<close> has become a path separator.
\<close>

theorem originalPath_underscore:
  "map_option (\<lambda>r. map (\<lambda>(k, p). (k, originalPath p, parentObject p, isFlattened p))
                      (properties r))
     (extractSchemaProperties 4 (registry_spec []) address_body)
   = Some [(''owner_home_address_street'',
            Some ''owner.home.address.street'', Some ''owner'', True)]"
  by code_simp

text \<open>
  The root schema's own required list is appended as it is: here the flattened output
  requires \<open>owner\<close>, which is not one of its properties, and does not require \<open>owner_name\<close>.
\<close>

lemma flattened_away_name_required:
  "map_option (\<lambda>r. (map fst (properties r), required r))
     (extractSchemaProperties 2 (registry_spec []) required_owner_body)
   = Some ([''owner_name''], [''owner''])"
  by code_simp

lemma update_all_values:
  "list_all (\<lambda>(k, v). P v) al \<Longrightarrow> P v \<Longrightarrow> list_all (\<lambda>(k, v). P v) (obj_set k v al)"
  unfolding obj_set_def by (induction al) auto

lemma obj_assign_all_values:
  "list_all (\<lambda>(k, v). P v) tgt \<Longrightarrow> list_all (\<lambda>(k, v). P v) src \<Longrightarrow>
   list_all (\<lambda>(k, v). P v) (obj_assign tgt src)"
proof (induction src arbitrary: tgt)
  case Nil
  then show ?case by (simp add: obj_assign_def)
next
  case (Cons a src)
  obtain k v where a: "a = (k, v)" by (cases a)
  from Cons.prems a have "list_all (\<lambda>(k, v). P v) (obj_set k v tgt)"
    by (simp add: update_all_values)
  from Cons.IH [OF this] Cons.prems(2) show ?case
    by (simp add: obj_assign_def a)
qed

lemma flatten_metadata_aux:
  "(\<forall>res. flattenNestedObject n spec schema parentName pfx = Some res \<longrightarrow>
      list_all (\<lambda>(k, p). flattened_under parentName p) (properties res))
   &&&
   (\<forall>res. flattenLoop n spec schema parentName pfx rest acc = Some res \<longrightarrow>
      list_all (\<lambda>(k, p). flattened_under parentName p) (properties acc) \<longrightarrow>
      list_all (\<lambda>(k, p). flattened_under parentName p) (properties res))"
proof (induction n spec schema parentName pfx and n spec schema parentName pfx rest acc
    rule: flattenNestedObject_flattenLoop.induct)
  case (1 spec schema parentName pfx)
  show ?case by simp
next
  case (2 n spec schema parentName pfx)
  show ?case
  proof (cases "s_properties schema")
    case None
    then show ?thesis by (simp add: empty_extracted_def)
  next
    case (Some props)
    with "2.IH" [OF Some] show ?thesis by (simp add: empty_extracted_def)
  qed
next
  case (3 n spec schema parentName pfx acc)
  show ?case by simp
next
  case (4 n spec schema parentName pfx propName propSchema rest acc)
  let ?name = "flattenedName parentName pfx propName"
  let ?r = "resolveMember spec propSchema"
  let ?ok = "\<lambda>(k, p). flattened_under parentName p"
  show ?case
  proof (intro allI impI)
    fix res
    assume a: "flattenLoop n spec schema parentName pfx ((propName, propSchema) # rest) acc
               = Some res"
      and acc: "list_all ?ok (properties acc)"
    show "list_all ?ok (properties res)"
    proof (cases "isNestedObject ?r")
      case True
      with a obtain nested where
        n: "flattenNestedObject n spec ?r parentName ?name = Some nested" and
        l: "flattenLoop n spec schema parentName pfx rest (absorb acc nested) = Some res"
        by (auto simp: Let_def split: option.splits)
      from "4.IH"(1) [OF refl refl True] n have "list_all ?ok (properties nested)"
        by blast
      with acc have "list_all ?ok (properties (absorb acc nested))"
        by (simp add: absorb_def obj_assign_all_values)
      with "4.IH"(2) [OF refl refl True n] l show ?thesis by blast
    next
      case False
      let ?p = "(unmarked (convertSchemaToZod (Some ?r) (s_description ?r)))
                  \<lparr> originalPath := Some (originalPathOf parentName pfx propName),
                    parentObject := Some parentName,
                    isFlattened := True \<rparr>"
      let ?acc = "\<lparr> properties = obj_set ?name ?p (properties acc),
                     required = (case s_required schema of
                                   Some rs \<Rightarrow> if propName \<in> set rs
                                              then required acc @ [?name] else required acc
                                 | None \<Rightarrow> required acc) \<rparr>"
      from a False have l: "flattenLoop n spec schema parentName pfx rest ?acc = Some res"
        by (simp add: Let_def)
      have "flattened_under parentName ?p"
        by (simp add: flattened_under_def originalPathOf_def)
      with acc have "list_all ?ok (properties ?acc)"
        by (simp add: update_all_values)
      with "4.IH"(3) [OF refl refl False refl] l show ?thesis by blast
    qed
  qed
qed

text \<open>
  Every property that flattening returns is marked \<open>isFlattened\<close>, has the flattening root
  as its \<open>parentObject\<close>, and has an \<open>originalPath\<close> that starts with the root's name and a
  dot.
\<close>

lemma flatten_metadata:
  assumes "flattenNestedObject n spec schema parentName pfx = Some res"
  shows "list_all (\<lambda>(k, p). flattened_under parentName p) (properties res)"
  using flatten_metadata_aux(1) [of n spec schema parentName pfx] assms by blast

section \<open>Termination of extraction\<close>

lemma own_ref_walked: "s_ref s = Some r \<Longrightarrow> r \<in> set (walked_refs s)"
  by (cases s) simp

lemma prop_refs_walked:
  "(p, ps) \<in> set (props_of s) \<Longrightarrow> set (walked_refs ps) \<subseteq> set (walked_refs s)"
  by (cases s) (auto simp: props_of_def split: option.splits)

lemma size_prop: "(p, ps) \<in> set (props_of s) \<Longrightarrow> size ps < size s"
proof (cases s)
  case (Schema ty ref desc fac ex items props req al on an)
  assume a: "(p, ps) \<in> set (props_of s)"
  then obtain l where l: "props = Some l" and m: "(p, ps) \<in> set l"
    using Schema by (auto simp: props_of_def split: option.splits)
  have "size_prod (\<lambda>x. 0) size (p, ps) \<le> size_list (size_prod (\<lambda>x. 0) size) l"
    using m by (rule size_list_estimation') simp
  then show ?thesis using Schema l by simp
qed

lemma refs_below_prop:
  "refs_below rank spec r s \<Longrightarrow> (p, ps) \<in> set (props_of s) \<Longrightarrow> refs_below rank spec r ps"
  using prop_refs_walked [of p ps s] by (auto simp: refs_below_def list_all_iff)

lemma refs_below_exists: "\<exists>r. refs_below rank spec r s"
proof -
  have "\<exists>r. list_all (\<lambda>ref. case ref_name ref of None \<Rightarrow> True
                | Some k \<Rightarrow> map_of (schemas spec) k = None \<or> rank k < r) xs" for xs
  proof (induction xs)
    case Nil
    show ?case by simp
  next
    case (Cons x xs)
    then obtain r where r: "list_all (\<lambda>ref. case ref_name ref of None \<Rightarrow> True
                | Some k \<Rightarrow> map_of (schemas spec) k = None \<or> rank k < r) xs" by blast
    let ?r = "max r (Suc (case ref_name x of None \<Rightarrow> 0 | Some k \<Rightarrow> rank k))"
    have "list_all (\<lambda>ref. case ref_name ref of None \<Rightarrow> True
                | Some k \<Rightarrow> map_of (schemas spec) k = None \<or> rank k < ?r) (x # xs)"
      using r by (fastforce simp: list_all_iff less_max_iff_disj split: option.splits)
    then show ?case by blast
  qed
  then show ?thesis by (simp add: refs_below_def)
qed

lemma entry_refs_below:
  assumes "acyclic_registry rank spec" and "map_of (schemas spec) k = Some t"
  shows "refs_below rank spec (rank k) t"
proof -
  from assms(2) have "(k, t) \<in> set (schemas spec)" by (rule map_of_SomeD)
  with assms(1) show ?thesis
    by (auto simp: acyclic_registry_def refs_below_def list_all_iff)
qed

text \<open>What \<open>resolveMember\<close> returns: the schema itself, or a registry entry it refers to.\<close>

lemma resolveMember_cases:
  "resolveMember spec ps = ps \<or> resolveMember spec ps = inherited_value \<or>
   (\<exists>ref k. s_ref ps = Some ref \<and> ref_name ref = Some k
      \<and> map_of (schemas spec) k = Some (resolveMember spec ps))"
  by (auto simp: resolveMember_def resolve_ref_name registry_get_def truthy_def
      split: option.splits if_splits)

text \<open>An inherited value has no properties and no \<open>$ref\<close>: nothing is walked from it.\<close>

lemma flatten_inherited:
  "flattenNestedObject (Suc m) spec inherited_value pn pfx = Some empty_extracted"
  by (simp add: inherited_value_def)

lemma extract_inherited:
  "extractSchemaProperties (Suc m) spec inherited_value \<noteq> None"
  by (simp add: inherited_value_def truthy_def resolveSchemaComposition_def Let_def)

lemma flattenLoop_returns:
  assumes "\<forall>(p, ps) \<in> set rest. \<exists>n. \<forall>m\<ge>n. \<forall>pn pfx.
             flattenNestedObject m spec (resolveMember spec ps) pn pfx \<noteq> None"
  shows "\<exists>n. \<forall>m\<ge>n. \<forall>pn pfx acc. flattenLoop m spec s pn pfx rest acc \<noteq> None"
  using assms
proof (induction rest)
  case Nil
  show ?case by simp
next
  case (Cons a rest)
  obtain p ps where a: "a = (p, ps)" by (cases a)
  from Cons.prems a obtain n1 where
    n1: "\<forall>m\<ge>n1. \<forall>pn pfx. flattenNestedObject m spec (resolveMember spec ps) pn pfx \<noteq> None"
    by auto
  from Cons.IH Cons.prems obtain n2 where
    n2: "\<forall>m\<ge>n2. \<forall>pn pfx acc. flattenLoop m spec s pn pfx rest acc \<noteq> None"
    by auto
  have "flattenLoop m spec s pn pfx (a # rest) acc \<noteq> None" if "m \<ge> max n1 n2"
    for m pn pfx acc
  proof -
    from that have m1: "m \<ge> n1" and m2: "m \<ge> n2" by simp_all
    show ?thesis
    proof (cases "isNestedObject (resolveMember spec ps)")
      case True
      from n1 m1 obtain nf where
        "flattenNestedObject m spec (resolveMember spec ps) pn (flattenedName pn pfx p) = Some nf"
        by blast
      then show ?thesis using True n2 m2 by (simp add: a Let_def)
    next
      case False
      then show ?thesis using n2 m2 by (simp add: a Let_def)
    qed
  qed
  then show ?case by blast
qed

lemma flatten_returns_below:
  assumes ac: "acyclic_registry rank spec"
  shows "refs_below rank spec r s \<Longrightarrow>
         \<exists>n. \<forall>m\<ge>n. \<forall>pn pfx. flattenNestedObject m spec s pn pfx \<noteq> None"
proof (induction r arbitrary: s rule: less_induct)
  case (less r)
  show ?case using less.prems
  proof (induction "size s" arbitrary: s rule: less_induct)
    case inner: less
    have each: "\<exists>n. \<forall>m\<ge>n. \<forall>pn pfx.
        flattenNestedObject m spec (resolveMember spec ps) pn pfx \<noteq> None"
      if mem: "(p, ps) \<in> set (props_of s)" for p ps
    proof -
      from resolveMember_cases [of spec ps] show ?thesis
      proof (elim disjE)
        assume same: "resolveMember spec ps = ps"
        have "refs_below rank spec r ps"
          using inner.prems mem by (rule refs_below_prop)
        with inner.hyps [OF size_prop [OF mem]] show ?thesis by (simp add: same)
      next
        assume inh: "resolveMember spec ps = inherited_value"
        have "flattenNestedObject m spec inherited_value pn pfx \<noteq> None" if "m \<ge> 1"
          for m pn pfx
          using that flatten_inherited [of "m - 1" spec pn pfx] by (cases m) simp_all
        then show ?thesis unfolding inh by blast
      next
        assume "\<exists>ref k. s_ref ps = Some ref \<and> ref_name ref = Some k
          \<and> map_of (schemas spec) k = Some (resolveMember spec ps)"
        then obtain ref k where ref: "s_ref ps = Some ref" and k: "ref_name ref = Some k"
          and t: "map_of (schemas spec) k = Some (resolveMember spec ps)" by blast
        have "ref \<in> set (walked_refs s)"
          using own_ref_walked [OF ref] prop_refs_walked [OF mem] by blast
        with inner.prems k t have "rank k < r"
          by (auto simp: refs_below_def list_all_iff split: option.splits)
        from less.IH [OF this entry_refs_below [OF ac t]] show ?thesis .
      qed
    qed
    then have "\<forall>(p, ps) \<in> set (props_of s). \<exists>n. \<forall>m\<ge>n. \<forall>pn pfx.
        flattenNestedObject m spec (resolveMember spec ps) pn pfx \<noteq> None"
      by blast
    from flattenLoop_returns [OF this] obtain n where
      n: "\<forall>m\<ge>n. \<forall>pn pfx acc. flattenLoop m spec s pn pfx (props_of s) acc \<noteq> None"
      by blast
    have "flattenNestedObject m spec s pn pfx \<noteq> None" if "m \<ge> Suc n" for m pn pfx
    proof -
      from that obtain m' where m': "m = Suc m'" and le: "m' \<ge> n"
        by (cases m) simp_all
      show ?thesis
        using n le by (cases "s_properties s") (simp_all add: m' props_of_def)
    qed
    then show ?case by blast
  qed
qed

lemma flatten_returns:
  assumes "acyclic_registry rank spec"
  shows "\<exists>n. \<forall>m\<ge>n. \<forall>pn pfx. flattenNestedObject m spec s pn pfx \<noteq> None"
  using refs_below_exists [of rank spec s] flatten_returns_below [OF assms] by blast

lemma extractLoop_returns:
  assumes ac: "acyclic_registry rank spec"
  shows "\<exists>n. \<forall>m\<ge>n. \<forall>acc. extractLoop m spec props acc \<noteq> None"
proof (induction props)
  case Nil
  show ?case by simp
next
  case (Cons a rest)
  obtain p ps where a: "a = (p, ps)" by (cases a)
  from Cons.IH obtain n0 where
    n0: "\<forall>m\<ge>n0. \<forall>acc. extractLoop m spec rest acc \<noteq> None" by blast
  let ?c = "resolveSchemaComposition ps spec"
  from flatten_returns [OF ac, of ps] obtain n1 where
    n1: "\<forall>m\<ge>n1. \<forall>pn pfx. flattenNestedObject m spec ps pn pfx \<noteq> None" by blast
  from flatten_returns [OF ac, of ?c] obtain n2 where
    n2: "\<forall>m\<ge>n2. \<forall>pn pfx. flattenNestedObject m spec ?c pn pfx \<noteq> None" by blast
  have "\<exists>n3. \<forall>m\<ge>n3. \<forall>t pn pfx. resolveSchemaReference (the (s_ref ps)) spec = Some t \<longrightarrow>
          flattenNestedObject m spec t pn pfx \<noteq> None"
  proof (cases "resolveSchemaReference (the (s_ref ps)) spec")
    case None
    then show ?thesis by simp
  next
    case (Some t)
    from flatten_returns [OF ac, of t] show ?thesis by (simp add: Some)
  qed
  then obtain n3 where
    n3: "\<forall>m\<ge>n3. \<forall>t pn pfx. resolveSchemaReference (the (s_ref ps)) spec = Some t \<longrightarrow>
          flattenNestedObject m spec t pn pfx \<noteq> None" by blast
  have "extractLoop m spec (a # rest) acc \<noteq> None"
    if "m \<ge> max (max n0 n1) (max n2 n3)" for m acc
  proof -
    from that have m0: "m \<ge> n0" and m1: "m \<ge> n1" and m2: "m \<ge> n2" and m3: "m \<ge> n3"
      by simp_all
    have r: "extractLoop m spec rest acc' \<noteq> None" for acc'
      using n0 m0 by blast
    have f1: "flattenNestedObject m spec ps p [] \<noteq> None" using n1 m1 by blast
    have f2: "flattenNestedObject m spec ?c p [] \<noteq> None" using n2 m2 by blast
    have f3: "flattenNestedObject m spec t p [] \<noteq> None"
      if "resolveSchemaReference (the (s_ref ps)) spec = Some t" for t
      using n3 m3 that by blast
    show ?thesis
      using r f1 f2 f3
      by (auto simp: a Let_def split: option.splits)
  qed
  then show ?case by blast
qed

text \<open>
  C2, as the code has it: reference and composition resolution are not recursive and
  always return; property extraction returns, at some finite call depth and at every
  greater one, whenever the registry is acyclic along the references it follows.
\<close>

theorem extraction_terminates_acyclic:
  assumes ac: "acyclic_registry rank spec"
  shows "\<exists>n. \<forall>m\<ge>n. extractSchemaProperties m spec schema \<noteq> None"
proof -
  have "refs_below rank spec r s \<Longrightarrow> \<exists>n. \<forall>m\<ge>n. extractSchemaProperties m spec s \<noteq> None"
    for r s
  proof (induction r arbitrary: s rule: less_induct)
    case (less r)
    let ?t = "if truthy (s_ref s) then resolveSchemaReference (the (s_ref s)) spec else None"
    show ?case
    proof (cases ?t)
      case (Some t)
      have "\<exists>n. \<forall>m\<ge>n. extractSchemaProperties m spec t \<noteq> None"
      proof (cases "t = inherited_value")
        case True
        have "extractSchemaProperties m spec inherited_value \<noteq> None" if "m \<ge> 1" for m
          using that extract_inherited [of "m - 1" spec] by (cases m) simp_all
        then show ?thesis unfolding True by blast
      next
        case False
        with Some obtain ref k where ref: "s_ref s = Some ref" and k: "ref_name ref = Some k"
          and t: "map_of (schemas spec) k = Some t"
          by (auto simp: truthy_def resolve_ref_name registry_get_def
              split: option.splits if_splits)
        from less.prems own_ref_walked [OF ref] k t have "rank k < r"
          by (auto simp: refs_below_def list_all_iff split: option.splits)
        from less.IH [OF this entry_refs_below [OF ac t]] show ?thesis .
      qed
      then obtain n where
        n: "\<forall>m\<ge>n. extractSchemaProperties m spec t \<noteq> None" by blast
      have "extractSchemaProperties m spec s \<noteq> None" if "m \<ge> Suc n" for m
      proof -
        from that obtain m' where m': "m = Suc m'" and le: "m' \<ge> n"
          by (cases m) simp_all
        show ?thesis using n le Some by (simp add: m')
      qed
      then show ?thesis by blast
    next
      case None
      from extractLoop_returns [OF ac, of "props_of (resolveSchemaComposition s spec)"]
      obtain n where n: "\<forall>m\<ge>n. \<forall>acc.
          extractLoop m spec (props_of (resolveSchemaComposition s spec)) acc \<noteq> None"
        by blast
      have "extractSchemaProperties m spec s \<noteq> None" if "m \<ge> Suc n" for m
      proof -
        from that obtain m' where m': "m = Suc m'" and le: "m' \<ge> n"
          by (cases m) simp_all
        from n le obtain acc where
          "extractLoop m' spec (props_of (resolveSchemaComposition s spec)) empty_extracted
             = Some acc" by blast
        then show ?thesis using None
          by (cases "s_properties (resolveSchemaComposition s spec)")
             (simp_all add: m' Let_def props_of_def)
      qed
      then show ?thesis by blast
    qed
  qed
  then show ?thesis using refs_below_exists [of rank spec schema] by blast
qed
lemma pet_spec_acyclic: "acyclic_registry pet_rank pet_spec"
  by code_simp

theorem extraction_terminates_acyclic_witness:
  "acyclic_registry pet_rank pet_spec
   \<and> (\<exists>n. \<forall>m\<ge>n. extractSchemaProperties m pet_spec pet_schema \<noteq> None)"
  using pet_spec_acyclic extraction_terminates_acyclic [OF pet_spec_acyclic, of pet_schema]
  by (rule conjI)

lemma extract_pet:
  "map_option required (extractSchemaProperties 2 pet_spec pet_schema) = Some [''owner_name'']"
  by code_simp

text \<open>
  A self-referential registry entry: \<open>flattenNestedObject\<close> on \<open>A\<close> calls itself on \<open>A\<close> again
  for the property \<open>child\<close>, so no call depth is enough.
\<close>

lemma self_ref_properties:
  "s_properties self_ref_schema = Some [(''child'', reference ''#/components/schemas/A'')]"
  by (simp add: self_ref_schema_def object_schema_def)

lemma self_ref_resolves:
  "resolveSchemaReference ''#/components/schemas/A'' self_ref_spec = Some self_ref_schema"
  by code_simp

lemma self_ref_member:
  "resolveMember self_ref_spec (reference ''#/components/schemas/A'') = self_ref_schema"
  by (simp add: resolveMember_def reference_def truthy_def self_ref_resolves)

lemma self_ref_nested: "isNestedObject self_ref_schema"
  by (simp add: isNestedObject_def self_ref_schema_def object_schema_def)

lemma flatten_self_ref:
  "flattenNestedObject n self_ref_spec self_ref_schema pn pfx = None"
proof (induction n arbitrary: pfx)
  case 0
  show ?case by simp
next
  case (Suc n)
  show ?case
    by (simp add: self_ref_properties self_ref_member self_ref_nested Let_def Suc.IH)
qed

lemma extractLoop_self_ref:
  "extractLoop n self_ref_spec [(''child'', reference ''#/components/schemas/A'')] acc = None"
proof -
  have t: "truthy (s_ref (reference ''#/components/schemas/A''))"
    and r: "the (s_ref (reference ''#/components/schemas/A'')) = ''#/components/schemas/A''"
    by (simp_all add: reference_def truthy_def)
  have f: "shouldFlattenObject self_ref_schema"
    by (simp add: shouldFlattenObject_def self_ref_properties)
  show ?thesis
    by (simp add: Let_def t r f self_ref_resolves flatten_self_ref del: One_nat_def)
qed

theorem extraction_cyclic_counterexample:
  "\<forall>n. extractSchemaProperties n self_ref_spec self_ref_schema = None"
proof
  fix n
  have nr: "\<not> truthy (s_ref self_ref_schema)"
    by (simp add: self_ref_schema_def object_schema_def truthy_def)
  have c: "resolveSchemaComposition self_ref_schema self_ref_spec = self_ref_schema"
    by (simp add: resolveSchemaComposition_def self_ref_schema_def object_schema_def)
  show "extractSchemaProperties n self_ref_spec self_ref_schema = None"
    by (cases n)
       (simp_all add: nr c self_ref_properties extractLoop_self_ref Let_def
          del: extractLoop.simps)
qed

section \<open>Properties of the tool synthesizer\<close>

lemma convert_pet_store: "convertToInternalFormat pet_store_doc = Some pet_store"
  by code_simp

text \<open>
  C6: the Pet Store document normalizes to \<open>pet_store\<close>, and tool synthesis on it, at any
  call depth, produces exactly one tool; its name is \<open>get_pet_by_id\<close>, its
  \<open>inputSchema.required\<close> is \<open>['id']\<close> and its property \<open>id\<close> has \<open>isPathParam\<close> set.
\<close>

theorem pet_store_tool:
  "convertToInternalFormat pet_store_doc = Some pet_store
   \<and> length (generate n pet_store) = 1
   \<and> map t_name (generate n pet_store) = [Some ''get_pet_by_id'']
   \<and> map (\<lambda>tool. map_option in_required (t_inputSchema tool)) (generate n pet_store)
       = [Some (Some [''id''])]
   \<and> map (\<lambda>tool. case t_inputSchema tool of
                     None \<Rightarrow> None
                   | Some i \<Rightarrow> map_option isPathParam (map_of (in_properties i) ''id''))
        (generate n pet_store) = [Some True]"
proof -
  have auth: "\<not> isAuthenticationEndpoint getPetById"
    by code_simp
  have name: "generateToolName getPetById = ''get_pet_by_id''"
    by code_simp
  have inp: "generateInputSchema n getPetById pet_store =
      Some \<lparr> in_type = ''object'',
             in_properties = [(''id'', (paramProperty id_param)\<lparr> isPathParam := True \<rparr>)],
             in_required = Some [''id''] \<rparr>"
    by (simp add: generateInputSchema_def getPetById_def id_param_def empty_extracted_def
        obj_set_def Let_def)
  have "generateMcpTool n getPetById pet_store \<noteq> None"
    by (simp add: generateMcpTool_def inp Let_def)
  then obtain tool where t: "generateMcpTool n getPetById pet_store = Some tool" by blast
  then have tn: "map_of tool ''name'' = Some (VString ''get_pet_by_id'')"
    and ti: "map_of tool ''inputSchema'' = Some (VInputSchema \<lparr> in_type = ''object'',
             in_properties = [(''id'', (paramProperty id_param)\<lparr> isPathParam := True \<rparr>)],
             in_required = Some [''id''] \<rparr>)"
    by (auto simp: generateMcpTool_def inp Let_def name)
  have ep: "endpoints pet_store = [getPetById]"
    by (simp add: pet_store_def)
  have g: "generate n pet_store = [tool]"
    by (simp add: generate_def ep auth t)
  show ?thesis
    by (simp add: g t_name_def t_inputSchema_def tn ti convert_pet_store)
qed

lemma generateLoop_mem:
  "tool \<in> set (generateLoop n spec es) \<Longrightarrow>
   \<exists>endpoint \<in> set es. generateMcpTool n endpoint spec = Some tool"
  by (induction es) (auto split: if_splits option.splits)

text \<open>The object literal of \<open>generateMcpTool\<close>, read key by key.\<close>

lemma generateMcpTool_keys:
  assumes "generateMcpTool n endpoint spec = Some tool"
  shows "tool_keys tool =
     [''name'', ''description'', ''inputSchema'', ''method'', ''path'', ''baseUrl'']
     @ (if generateAuthenticationSpec endpoint spec \<noteq> None then [''authentication''] else [])
     @ (if headerParamsOf (e_parameters endpoint) \<noteq> [] then [''headerParams''] else [])
     @ [''responseHandling'', ''errorHandling'']"
  using assms
  by (auto simp: generateMcpTool_def Let_def tool_keys_def split: option.splits)

lemma generateMcpTool_baseUrl:
  assumes "generateMcpTool n endpoint spec = Some tool"
  shows "t_baseUrl tool = Some (getBaseUrl spec)"
  using assms
  by (auto simp: generateMcpTool_def Let_def t_baseUrl_def split: option.splits)

lemma generateMcpTool_headerParams:
  assumes "generateMcpTool n endpoint spec = Some tool"
  shows "map_of tool ''headerParams'' =
     (if headerParamsOf (e_parameters endpoint) \<noteq> []
      then Some (VHeaderParams (headerParamsOf (e_parameters endpoint))) else None)"
  using assms
  by (auto simp: generateMcpTool_def Let_def split: option.splits)

lemma headerParamsOf_empty:
  "(headerParamsOf params \<noteq> []) = list_ex (\<lambda>param. p_in param = ''header'') params"
  by (auto simp: headerParamsOf_def list_ex_iff filter_empty_conv)

text \<open>
  C7, as the code has it: a tool that the synthesizer produces is the object built for one
  endpoint of the specification. Its keys are distinct and are among the nine fields of
  the data model and \<open>headerParams\<close>; no other key, so no registry, is in it.
  \<open>headerParams\<close> is there exactly when the endpoint has a header parameter, and then
  holds, for each header parameter in order, its name, its name with dashes turned into
  underscores, whether it is required, and its description or \<open>Header parameter:\<close> and
  the name.
\<close>

theorem tool_fields:
  assumes "tool \<in> set (generate n spec)"
  shows "\<exists>endpoint \<in> set (endpoints spec).
           generateMcpTool n endpoint spec = Some tool
           \<and> distinct (tool_keys tool)
           \<and> set (tool_keys tool) \<subseteq> set data_model_fields \<union> {''headerParams''}
           \<and> map_of tool ''headerParams'' =
               (if list_ex (\<lambda>param. p_in param = ''header'') (e_parameters endpoint)
                then Some (VHeaderParams
                       (map (\<lambda>param.
                               \<lparr> h_name = p_name param,
                                 h_paramName = map (\<lambda>c. if c = CHR ''-'' then CHR ''_'' else c)
                                                 (p_name param),
                                 h_required = (p_required param = Some True),
                                 h_description =
                                   (if truthy (p_description param)
                                    then the (p_description param)
                                    else ''Header parameter: '' @ p_name param) \<rparr>)
                          (filter (\<lambda>param. p_in param = ''header'') (e_parameters endpoint))))
                else None)"
proof -
  from assms obtain endpoint where e: "endpoint \<in> set (endpoints spec)"
    and t: "generateMcpTool n endpoint spec = Some tool"
    using generateLoop_mem [of tool n spec "endpoints spec"] by (auto simp: generate_def)
  note k = generateMcpTool_keys [OF t]
  have d: "distinct (tool_keys tool)"
    unfolding k by simp
  have s: "set (tool_keys tool) \<subseteq> set data_model_fields \<union> {''headerParams''}"
    unfolding k by (auto simp: data_model_fields_def)
  have h: "map_of tool ''headerParams'' =
      (if list_ex (\<lambda>param. p_in param = ''header'') (e_parameters endpoint)
       then Some (VHeaderParams (headerParamsOf (e_parameters endpoint))) else None)"
    using generateMcpTool_headerParams [OF t] by (simp add: headerParamsOf_empty)
  have c: "headerParamsOf (e_parameters endpoint) =
      map (\<lambda>param.
             \<lparr> h_name = p_name param,
               h_paramName = map (\<lambda>c. if c = CHR ''-'' then CHR ''_'' else c) (p_name param),
               h_required = (p_required param = Some True),
               h_description =
                 (if truthy (p_description param)
                  then the (p_description param)
                  else ''Header parameter: '' @ p_name param) \<rparr>)
        (filter (\<lambda>param. p_in param = ''header'') (e_parameters endpoint))"
    by (simp add: headerParamsOf_def dashes_to_underscores_def str_or_def)
  show ?thesis
    using e t d s h unfolding c by blast
qed

lemma header_store_tools:
  "map tool_keys (generate 1 header_store) =
     [[''name'', ''description'', ''inputSchema'', ''method'', ''path'', ''baseUrl'',
       ''headerParams'', ''responseHandling'', ''errorHandling'']]"
  by code_simp

lemma header_store_headerParams:
  "map (\<lambda>tool. map_of tool ''headerParams'') (generate 1 header_store) =
     [Some (VHeaderParams
        [\<lparr> h_name = ''X-Request-Id'', h_paramName = ''X_Request_Id'', h_required = False,
           h_description = ''Header parameter: X-Request-Id'' \<rparr>])]"
  by code_simp

theorem tool_fields_witness:
  "\<exists>tool \<in> set (generate 1 header_store). \<exists>endpoint \<in> set (endpoints header_store).
     generateMcpTool 1 endpoint header_store = Some tool
     \<and> distinct (tool_keys tool)
     \<and> ''headerParams'' \<in> set (tool_keys tool)
     \<and> map_of tool ''headerParams'' = Some (VHeaderParams
          [\<lparr> h_name = ''X-Request-Id'', h_paramName = ''X_Request_Id'', h_required = False,
             h_description = ''Header parameter: X-Request-Id'' \<rparr>])"
proof -
  from header_store_tools obtain tool where g: "generate 1 header_store = [tool]"
    and k: "tool_keys tool = [''name'', ''description'', ''inputSchema'', ''method'', ''path'',
       ''baseUrl'', ''headerParams'', ''responseHandling'', ''errorHandling'']"
    by (cases "generate 1 header_store") auto
  have m: "tool \<in> set (generate 1 header_store)" unfolding g by simp
  have h: "''headerParams'' \<in> set (tool_keys tool)" by (simp add: k)
  have v: "map_of tool ''headerParams'' = Some (VHeaderParams
          [\<lparr> h_name = ''X-Request-Id'', h_paramName = ''X_Request_Id'', h_required = False,
             h_description = ''Header parameter: X-Request-Id'' \<rparr>])"
    using header_store_headerParams unfolding g by simp
  from tool_fields [OF m] obtain endpoint where
    "endpoint \<in> set (endpoints header_store)"
    "generateMcpTool 1 endpoint header_store = Some tool" "distinct (tool_keys tool)"
    by blast
  with m h v show ?thesis by blast
qed

text \<open>
  The claim fails as stated: the tool for an endpoint with a header parameter has the key
  \<open>headerParams\<close>, which is not a field of the data model.
\<close>

theorem tool_fields_counterexample:
  "map tool_keys (generate 1 header_store) =
     [[''name'', ''description'', ''inputSchema'', ''method'', ''path'', ''baseUrl'',
       ''headerParams'', ''responseHandling'', ''errorHandling'']]
   \<and> ''headerParams'' \<notin> set data_model_fields"
  by code_simp

text \<open>
  C10: on a parsed specification with no \<open>servers\<close> every synthesized tool has the empty
  string as its \<open>baseUrl\<close>; nothing else of the specification is looked at.
\<close>

theorem baseUrl_empty_without_servers:
  assumes "servers spec = None"
  shows "\<forall>tool \<in> set (generate n spec). t_baseUrl tool = Some []"
proof
  fix tool
  assume "tool \<in> set (generate n spec)"
  then obtain endpoint :: ApiEndpoint where "generateMcpTool n endpoint spec = Some tool"
    using generateLoop_mem [of tool n spec "endpoints spec"] by (auto simp: generate_def)
  then have "t_baseUrl tool = Some (getBaseUrl spec)" by (rule generateMcpTool_baseUrl)
  with assms show "t_baseUrl tool = Some []" by (simp add: getBaseUrl_def)
qed

lemma convert_swagger2: "convertToInternalFormat swagger2_doc = Some pet_store"
  by code_simp

text \<open>
  The Swagger 2.0 document declares \<open>host\<close>, \<open>basePath\<close> and \<open>schemes\<close>, and the parser's
  helper derives a base URL from them; the one tool synthesized from it has none.
\<close>

theorem baseUrl_empty_without_servers_witness:
  "convertToInternalFormat swagger2_doc = Some pet_store
   \<and> parser_getBaseUrl swagger2_doc = ''https://api.example.com/v1''
   \<and> servers pet_store = None
   \<and> length (generate 1 pet_store) = 1
   \<and> map t_baseUrl (generate 1 pet_store) = [Some []]"
proof -
  have s: "servers pet_store = None" by (simp add: pet_store_def)
  have p: "parser_getBaseUrl swagger2_doc = ''https://api.example.com/v1''" by code_simp
  have l: "length (generate 1 pet_store) = 1" by code_simp
  then obtain tool where g: "generate 1 pet_store = [tool]"
    by (cases "generate 1 pet_store") auto
  from baseUrl_empty_without_servers [OF s, of 1] g have "t_baseUrl tool = Some []" by simp
  then have b: "map t_baseUrl (generate 1 pet_store) = [Some []]"
    unfolding g by simp
  show ?thesis
    by (intro conjI convert_swagger2 p s l b)
qed

section \<open>Properties of the validator\<close>


























lemma validate_no_version_doc:
  "validate no_version_doc =
     \<lparr> isValid = False, errors = [''Missing required field: info.version''],
       warnings = [''Missing summary and description for GET /pets/{id}'',
                   ''No servers defined - consider adding server URLs''],
       suggestions = [''Consider adding tags for GET /pets/{id} for better organization''] \<rparr>"
  by code_simp





end
